theory Spec2Isabelle
  imports Complex_Main
begin

section \<open>Errors of the Python code as values\<close>

text \<open>
  Every exception that the modelled functions of \<^verbatim>\<open>hprocessing/ProcessEnviFile.py\<close> can
  raise is a constructor; a function that may raise returns \<open>error + 'a\<close> with \<open>Inl\<close> for
  the exception. The constructor records which Python exception it stands for:
  \<^item> \<open>LengthNotEqual\<close>: the \<^verbatim>\<open>ValueError\<close> raised by \<^verbatim>\<open>validateWavelengths\<close>, with both lengths;
  \<^item> \<open>InvalidLiteral\<close>: the \<^verbatim>\<open>ValueError\<close> of \<^verbatim>\<open>int(s)\<close> on a string that is no integer literal;
  \<^item> \<open>ZeroDivisionError\<close>, \<open>IndexError\<close>, \<open>KeyError\<close>: the Python exceptions of these names;
  \<^item> \<open>EmptyReduction\<close>: the \<^verbatim>\<open>ValueError\<close> of \<^verbatim>\<open>np.max\<close> on an array of size zero;
  \<^item> \<open>BroadcastError\<close>: the \<^verbatim>\<open>ValueError\<close> of \<^verbatim>\<open>np.divide\<close> on operands whose lengths cannot be
    broadcast;
  \<^item> \<open>ColumnsPassed\<close>, \<open>NoObjectsToConcatenate\<close>, \<open>LengthOfValues\<close>: the \<^verbatim>\<open>ValueError\<close>s of pandas
    for a row that does not fit the column labels, for \<^verbatim>\<open>pd.concat\<close> of an empty list, and for
    a column assignment whose list has not one value for each row.

  \<open>NotModelled\<close> is no exception of Python: the model returns it where the behaviour depends
  on the version of Python or of pandas and is left open (it is said at each such place
  which inputs these are). No theorem speaks of a result on these inputs.
\<close>

datatype error =
    LengthNotEqual nat nat
  | InvalidLiteral string
  | ZeroDivisionError
  | IndexError
  | KeyError string
  | EmptyReduction
  | BroadcastError nat nat
  | ColumnsPassed nat nat
  | NoObjectsToConcatenate
  | LengthOfValues nat nat
  | NotModelled

section \<open>Python built-ins used by the code\<close>

subsection \<open>\<^verbatim>\<open>int(x)\<close> on a quality flag\<close>

text \<open>
  The docstrings give the flags (\<^verbatim>\<open>bbl\<close>) as a list of str/int/bool. \<^verbatim>\<open>int\<close> is the
  identity on an int, maps \<^verbatim>\<open>True\<close> to 1 and \<^verbatim>\<open>False\<close> to 0, and parses a \<^verbatim>\<open>str\<close> as a
  base-10 literal: surrounding whitespace is skipped, one sign is allowed, and the digits
  may be grouped by single underscores.

  A \<open>FlagStr\<close> holds a \<^verbatim>\<open>str\<close> whose characters have code points below 256, a character
  being its code point. The whitespace that \<^verbatim>\<open>int\<close> skips is not that of \<^verbatim>\<open>str.isspace\<close>: it
  is the space and the five characters \<^verbatim>\<open>\t \n \x0b \x0c \r\<close>, and, of the code points from
  128 on, \<^verbatim>\<open>\x85\<close> and \<^verbatim>\<open>\xa0\<close>. The separators \<^verbatim>\<open>\x1c\<close> to \<^verbatim>\<open>\x1f\<close> are not skipped:
  \<^verbatim>\<open>int('\x1c1')\<close> raises \<^verbatim>\<open>ValueError\<close>, while \<^verbatim>\<open>int('\xa01')\<close> is 1. The only digits below
  256 are the ASCII digits.
\<close>

datatype flag = FlagInt int | FlagBool bool | FlagStr string

definition is_py_space :: "char \<Rightarrow> bool" where
  "is_py_space c \<longleftrightarrow> c \<in> set [CHR 0x20, CHR 0x09, CHR 0x0A, CHR 0x0B, CHR 0x0C, CHR 0x0D,
                                  CHR 0x85, CHR 0xA0]"

definition is_digit :: "char \<Rightarrow> bool" where
  "is_digit c \<longleftrightarrow> c \<in> set ''0123456789''"

definition digit_val :: "char \<Rightarrow> int" where
  "digit_val c = int (of_char c) - 48"

definition py_strip :: "string \<Rightarrow> string" where
  "py_strip s = rev (dropWhile is_py_space (rev (dropWhile is_py_space s)))"

text \<open>
  \<open>py_digits acc after_digit s\<close> reads the digits of a literal: \<open>after_digit\<close> tells that
  the previous character was a digit, the only place where an underscore may stand, and
  an underscore must be followed by a digit.
\<close>

fun py_digits :: "int \<Rightarrow> bool \<Rightarrow> string \<Rightarrow> int option" where
  "py_digits acc after_digit [] = (if after_digit then Some acc else None)"
| "py_digits acc after_digit (c # cs) =
     (if is_digit c then py_digits (10 * acc + digit_val c) True cs
      else if c = CHR ''_'' \<and> after_digit \<and> cs \<noteq> [] \<and> is_digit (hd cs)
        then py_digits acc False cs
      else None)"

text \<open>
  Python 3.11 and the later releases of 3.7 to 3.10 raise \<^verbatim>\<open>ValueError\<close> on a literal of more
  than 4300 digits (the default limit; leading zeros are counted, underscores are not),
  where earlier releases parse it; the model leaves such a literal open.
\<close>

definition py_int_str :: "string \<Rightarrow> error + int" where
  "py_int_str s =
     (let t = py_strip s;
          (neg, body) = (case t of
                           c # cs \<Rightarrow> if c = CHR ''-'' then (True, cs)
                                     else if c = CHR ''+'' then (False, cs)
                                     else (False, t)
                         | [] \<Rightarrow> (False, t))
      in case py_digits 0 False body of
           None \<Rightarrow> Inl (InvalidLiteral s)
         | Some v \<Rightarrow>
             if 4300 < length (filter is_digit body) then Inl NotModelled
             else Inr (if neg then - v else v))"

fun py_int :: "flag \<Rightarrow> error + int" where
  "py_int (FlagInt i) = Inr i"
| "py_int (FlagBool b) = Inr (if b then 1 else 0)"
| "py_int (FlagStr s) = py_int_str s"

subsection \<open>\<^verbatim>\<open>int(a / b)\<close> and \<^verbatim>\<open>range(n)\<close> on integers\<close>

text \<open>
  \<^verbatim>\<open>a / b\<close> is Python's true division: it raises \<^verbatim>\<open>ZeroDivisionError\<close> when \<open>b\<close> is zero
  and gives a float otherwise, which \<^verbatim>\<open>int\<close> truncates towards zero. On pixel indices
  (magnitudes far below \<open>2^53\<close>) the truncated float quotient is the truncated exact
  quotient, which is what the model computes.
\<close>

definition py_int_truediv :: "int \<Rightarrow> int \<Rightarrow> error + int" where
  "py_int_truediv a b =
     (if b = 0 then Inl ZeroDivisionError
      else Inr (sgn a * sgn b * (\<bar>a\<bar> div \<bar>b\<bar>)))"

definition py_range :: "int \<Rightarrow> int list" where
  "py_range n = [0..n - 1]"

section \<open>Band validation and filtering\<close>

text \<open>
  \<^verbatim>\<open>validateWavelengths(wavelengths, bbl)\<close>: raises when the lengths differ, drops the
  first entry of both lists when there are exactly 139 wavelengths, and returns the lists
  unchanged otherwise.
\<close>

definition validateWavelengths :: "'w list \<Rightarrow> flag list \<Rightarrow> error + ('w list \<times> flag list)" where
  "validateWavelengths wavelengths bbl =
     (if length wavelengths \<noteq> length bbl
        then Inl (LengthNotEqual (length wavelengths) (length bbl))
      else if length wavelengths = 139 then Inr (drop 1 wavelengths, drop 1 bbl)
      else Inr (wavelengths, bbl))"

text \<open>
  \<^verbatim>\<open>removeBadBands(spectrum, wavelengths, bbl)\<close>: the loop runs over
  \<^verbatim>\<open>enumerate(spectrum)\<close>; \<open>i\<close> is the running index, \<open>newwavelengths\<close> and \<open>newspectrum\<close>
  the two lists built by \<^verbatim>\<open>append\<close>. \<^verbatim>\<open>bbl[i]\<close> is read for every \<open>i\<close>, \<^verbatim>\<open>wavelengths[i]\<close>
  only for a kept band; either read raises \<^verbatim>\<open>IndexError\<close> past the end of its list.
\<close>

fun removeBadBands_loop ::
  "nat \<Rightarrow> 'a list \<Rightarrow> 'w list \<Rightarrow> flag list \<Rightarrow> 'w list \<Rightarrow> 'a list \<Rightarrow> error + ('w list \<times> 'a list)" where
  "removeBadBands_loop i [] wavelengths bbl newwavelengths newspectrum =
     Inr (newwavelengths, newspectrum)"
| "removeBadBands_loop i (rfl # rest) wavelengths bbl newwavelengths newspectrum =
     (if length bbl \<le> i then Inl IndexError
      else case py_int (bbl ! i) of
             Inl e \<Rightarrow> Inl e
           | Inr v \<Rightarrow>
               if v = 1 then
                 (if length wavelengths \<le> i then Inl IndexError
                  else removeBadBands_loop (Suc i) rest wavelengths bbl
                         (newwavelengths @ [wavelengths ! i]) (newspectrum @ [rfl]))
               else removeBadBands_loop (Suc i) rest wavelengths bbl newwavelengths newspectrum)"

definition removeBadBands :: "'a list \<Rightarrow> 'w list \<Rightarrow> flag list \<Rightarrow> error + ('w list \<times> 'a list)" where
  "removeBadBands spectrum wavelengths bbl = removeBadBands_loop 0 spectrum wavelengths bbl [] []"

text \<open>
  The band part of \<^verbatim>\<open>ProcessEnviFile.__init__\<close>: the validated lists become
  \<^verbatim>\<open>wavelengths_original\<close> and \<^verbatim>\<open>bbl_original\<close>, and \<^verbatim>\<open>self.wavelengths\<close> is the first
  component of \<^verbatim>\<open>removeBadBands(wavelengths_original, wavelengths_original, bbl_original)\<close>.
\<close>

record 'w bands =
  wavelengths_original :: "'w list"
  bbl_original :: "flag list"
  wavelengths :: "'w list"

definition init_bands :: "'w list \<Rightarrow> flag list \<Rightarrow> error + 'w bands" where
  "init_bands wls bbl =
     (case validateWavelengths wls bbl of
        Inl e \<Rightarrow> Inl e
      | Inr (wo, bo) \<Rightarrow>
          (case removeBadBands wo wo bo of
             Inl e \<Rightarrow> Inl e
           | Inr (w, _) \<Rightarrow>
               Inr \<lparr>wavelengths_original = wo, bbl_original = bo, wavelengths = w\<rparr>))"

section \<open>Grid geometry\<close>

text \<open>
  A rectangle is the list \<^verbatim>\<open>[row_start, row_end, col_start, col_end]\<close> of the code, read
  by its four indices; the model keeps the four integers as a tuple.
\<close>

type_synonym edges = "int \<times> int \<times> int \<times> int"

text \<open>
  \<^verbatim>\<open>getRealGridSize(edges)\<close>; \<^verbatim>\<open>self.grid\<close> is \<open>None\<close> or a pair. \<^verbatim>\<open>not self.grid\<close> holds for
  \<^verbatim>\<open>None\<close> only (a pair is a non-empty tuple).
\<close>

definition getRealGridSize :: "(int \<times> int) option \<Rightarrow> edges \<Rightarrow> int \<times> int" where
  "getRealGridSize grid edges =
     (case edges of (e0, e1, e2, e3) \<Rightarrow>
        (case grid of
           None \<Rightarrow> (e1 - e0, e3 - e2)
         | Some (g0, g1) \<Rightarrow>
             ((if g0 = 0 then e1 - e0 else g0),
              (if g1 = 0 then e3 - e2 else g1))))"

text \<open>
  \<^verbatim>\<open>getEdgesForGrid(edges, grid_real)\<close>. The four divisions are done in the order of the
  source, each of them able to raise; the two nested loops append the cells row by row.
\<close>

definition new_starts :: "int \<Rightarrow> int \<Rightarrow> int \<Rightarrow> int list" where
  "new_starts start step n = map (\<lambda>i. start + step * i) (py_range n)"

definition getEdgesForGrid :: "edges \<Rightarrow> int \<times> int \<Rightarrow> error + edges list" where
  "getEdgesForGrid edges grid_real =
     (case edges of (e0, e1, e2, e3) \<Rightarrow>
       (case py_int_truediv (e1 - e0) (fst grid_real) of Inl e \<Rightarrow> Inl e | Inr height \<Rightarrow>
         (case py_int_truediv (e3 - e2) (snd grid_real) of Inl e \<Rightarrow> Inl e | Inr width \<Rightarrow>
           (case py_int_truediv (e1 - e0) height of Inl e \<Rightarrow> Inl e | Inr n_rows \<Rightarrow>
             (case py_int_truediv (e3 - e2) width of Inl e \<Rightarrow> Inl e | Inr n_cols \<Rightarrow>
                Inr (concat (map (\<lambda>row_s.
                       map (\<lambda>col_s. (row_s, row_s + height, col_s, col_s + width))
                           (new_starts e2 width n_cols))
                     (new_starts e0 height n_rows))))))))"

text \<open>
  \<^verbatim>\<open>getGridElements(grid)\<close>: \<^verbatim>\<open>itertools.product\<close> of the two ranges, except for \<^verbatim>\<open>None\<close> and
  \<^verbatim>\<open>(0, 0)\<close>.
\<close>

definition getGridElements :: "(int \<times> int) option \<Rightarrow> (int \<times> int) list" where
  "getGridElements grid =
     (case grid of
        None \<Rightarrow> [(0, 0)]
      | Some (g0, g1) \<Rightarrow>
          if (g0, g1) = (0, 0) then [(0, 0)]
          else List.product (py_range g0) (py_range g1))"

section \<open>The band filter in the words of the specification\<close>

text \<open>
  The specification describes the band filter without the loop: if there are exactly 139
  wavelengths the first entry of both sequences is discarded, then a band is kept iff its
  flag, read as an integer, equals 1, in the order of the input. \<open>BandFilter_spec\<close> is that
  description; it is compared below with what the constructor computes.
\<close>

definition keep_flag_one :: "'w list \<Rightarrow> flag list \<Rightarrow> 'w list" where
  "keep_flag_one wls bbl = map fst (filter (\<lambda>p. py_int (snd p) = Inr 1) (zip wls bbl))"

definition BandFilter_spec :: "'w list \<Rightarrow> flag list \<Rightarrow> 'w list" where
  "BandFilter_spec wls bbl =
     (if length wls = 139 then keep_flag_one (drop 1 wls) (drop 1 bbl)
      else keep_flag_one wls bbl)"

section \<open>Pixels of a rectangle\<close>

text \<open>
  The pixels of a rectangle are the pairs visited by the two loops of
  \<^verbatim>\<open>getMeanSpectrumFromRectangle\<close>: \<^verbatim>\<open>range(edges[0], edges[1])\<close> for the rows and
  \<^verbatim>\<open>range(edges[2], edges[3])\<close> for the columns, both half-open.
\<close>

definition pixels :: "edges \<Rightarrow> (int \<times> int) set" where
  "pixels edges =
     (case edges of (e0, e1, e2, e3) \<Rightarrow> {(row, col). e0 \<le> row \<and> row < e1 \<and> e2 \<le> col \<and> col < e3})"

section \<open>Numbers of the numerical library\<close>

text \<open>
  Pixel values are finite numbers and are modelled as reals. A value computed by numpy can
  also be an infinity or NaN (the mean of no values, a division by zero), so computed
  values are reals extended by \<open>PosInf\<close>, \<open>NegInf\<close> and \<open>NaN\<close>. The arithmetic on finite
  values is exact: rounding, overflow and the sign of zero of IEEE doubles are not
  modelled.
\<close>

datatype npfloat = Finite real | PosInf | NegInf | NaN

fun np_neg :: "npfloat \<Rightarrow> npfloat" where
  "np_neg (Finite a) = Finite (- a)"
| "np_neg PosInf = NegInf"
| "np_neg NegInf = PosInf"
| "np_neg NaN = NaN"

text \<open>Division as \<^verbatim>\<open>np.divide\<close> does it on float64: a warning, never an exception.\<close>

fun np_div :: "npfloat \<Rightarrow> npfloat \<Rightarrow> npfloat" where
  "np_div (Finite a) (Finite b) =
     (if b \<noteq> 0 then Finite (a / b)
      else if a = 0 then NaN else if 0 < a then PosInf else NegInf)"
| "np_div (Finite a) PosInf = Finite 0"
| "np_div (Finite a) NegInf = Finite 0"
| "np_div PosInf (Finite b) = (if 0 \<le> b then PosInf else NegInf)"
| "np_div NegInf (Finite b) = (if 0 \<le> b then NegInf else PosInf)"
| "np_div PosInf PosInf = NaN"
| "np_div PosInf NegInf = NaN"
| "np_div NegInf PosInf = NaN"
| "np_div NegInf NegInf = NaN"
| "np_div NaN y = NaN"
| "np_div x NaN = NaN"

fun np_mul :: "npfloat \<Rightarrow> npfloat \<Rightarrow> npfloat" where
  "np_mul (Finite a) (Finite b) = Finite (a * b)"
| "np_mul PosInf (Finite b) = (if b = 0 then NaN else if 0 < b then PosInf else NegInf)"
| "np_mul NegInf (Finite b) = (if b = 0 then NaN else if 0 < b then NegInf else PosInf)"
| "np_mul (Finite a) PosInf = (if a = 0 then NaN else if 0 < a then PosInf else NegInf)"
| "np_mul (Finite a) NegInf = (if a = 0 then NaN else if 0 < a then NegInf else PosInf)"
| "np_mul PosInf PosInf = PosInf"
| "np_mul PosInf NegInf = NegInf"
| "np_mul NegInf PosInf = NegInf"
| "np_mul NegInf NegInf = PosInf"
| "np_mul NaN y = NaN"
| "np_mul x NaN = NaN"

text \<open>
  The reductions of \<^verbatim>\<open>getMeanSpectrumFromRectangle\<close> on the list \<open>roi\<close> of pixel values.
  \<^verbatim>\<open>np.mean\<close> and \<^verbatim>\<open>np.median\<close> of no values are NaN (with a warning); \<^verbatim>\<open>np.max\<close> of no values
  raises \<^verbatim>\<open>ValueError\<close>. \<^verbatim>\<open>np.sort(roi)[-10:]\<close> is the ascending sort followed by a slice that
  keeps the last ten entries, or all of them when there are fewer.
\<close>

definition np_mean :: "real list \<Rightarrow> npfloat" where
  "np_mean xs = (if xs = [] then NaN else Finite (sum_list xs / real (length xs)))"

definition np_median :: "real list \<Rightarrow> npfloat" where
  "np_median xs =
     (if xs = [] then NaN
      else let s = sort xs; n = length s
           in if odd n then Finite (s ! (n div 2))
              else Finite ((s ! (n div 2 - 1) + s ! (n div 2)) / 2))"

definition np_max :: "real list \<Rightarrow> error + npfloat" where
  "np_max xs = (if xs = [] then Inl EmptyReduction else Inr (Finite (Max (set xs))))"

definition last_ten :: "'a list \<Rightarrow> 'a list" where
  "last_ten xs = drop (length xs - 10) xs"

text \<open>
  The chain \<^verbatim>\<open>if mode == "median" ... elif mode == "max10"\<close>: a value to append, or \<open>None\<close>
  when the mode is none of the four strings and nothing is appended.
\<close>

definition reduce_roi :: "string \<Rightarrow> real list \<Rightarrow> error + npfloat option" where
  "reduce_roi mode roi =
     (if mode = ''median'' then Inr (Some (np_median roi))
      else if mode = ''mean'' then Inr (Some (np_mean roi))
      else if mode = ''max'' then
        (case np_max roi of Inl e \<Rightarrow> Inl e | Inr v \<Rightarrow> Inr (Some v))
      else if mode = ''max10'' then Inr (Some (np_mean (last_ten (sort roi))))
      else Inr None)"

section \<open>Collecting the pixels of a region\<close>

text \<open>
  The image and the mask are objects of the spectral and numpy libraries; they are taken
  as total accessors \<^verbatim>\<open>image[row, col, band]\<close> and \<^verbatim>\<open>mask[row, col]\<close>, the mask being optional
  (\<^verbatim>\<open>None\<close>). The two nested loops over \<^verbatim>\<open>range(edges[0], edges[1])\<close> and
  \<^verbatim>\<open>range(edges[2], edges[3])\<close> append to \<open>roi\<close>; a pixel whose mask value is 1 is skipped by
  \<^verbatim>\<open>continue\<close>.
\<close>

type_synonym image = "int \<Rightarrow> int \<Rightarrow> nat \<Rightarrow> real"
type_synonym mask = "(int \<Rightarrow> int \<Rightarrow> int) option"

definition roi_step :: "image \<Rightarrow> mask \<Rightarrow> nat \<Rightarrow> int \<Rightarrow> int \<Rightarrow> real list \<Rightarrow> real list" where
  "roi_step img msk i row col roi =
     (case msk of
        Some m \<Rightarrow> if m row col = 1 then roi else roi @ [img row col i]
      | None \<Rightarrow> roi @ [img row col i])"

definition collect_roi :: "image \<Rightarrow> mask \<Rightarrow> edges \<Rightarrow> nat \<Rightarrow> real list" where
  "collect_roi img msk edges i =
     (case edges of (e0, e1, e2, e3) \<Rightarrow>
        fold (\<lambda>row roi. fold (\<lambda>col roi. roi_step img msk i row col roi) [e2..e3 - 1] roi)
             [e0..e1 - 1] [])"

text \<open>
  The pixels of a rectangle that the mask lets through, in the order of the loops. The
  specification names the test \<open>isExcluded\<close>: the mask value equals 1.
\<close>

definition isExcluded :: "mask \<Rightarrow> int \<times> int \<Rightarrow> bool" where
  "isExcluded msk p = (case msk of None \<Rightarrow> False | Some m \<Rightarrow> m (fst p) (snd p) = 1)"

definition available :: "mask \<Rightarrow> edges \<Rightarrow> (int \<times> int) list" where
  "available msk edges =
     (case edges of (e0, e1, e2, e3) \<Rightarrow>
        filter (\<lambda>p. \<not> isExcluded msk p) (List.product [e0..e1 - 1] [e2..e3 - 1]))"

section \<open>Calibration\<close>

text \<open>
  \<^verbatim>\<open>getCalibratedSpectrum(soil, spectralon, spectralon_factor)\<close> on two sequences of values.
  \<^verbatim>\<open>np.squeeze\<close> turns a sequence with exactly one entry into a zero-dimensional array
  and leaves every other sequence as it is; \<^verbatim>\<open>np.divide\<close> divides entry by entry, pairs a
  zero-dimensional or one-entry operand with every entry of the other one, and raises
  \<^verbatim>\<open>ValueError\<close> when the two lengths cannot be broadcast; the product with the factor is
  taken entry by entry. \<^verbatim>\<open>astype(float)\<close> changes nothing on values that are floats already.
\<close>

datatype ndarray = Scalar npfloat | Array "npfloat list"

definition np_squeeze :: "npfloat list \<Rightarrow> ndarray" where
  "np_squeeze xs = (case xs of [x] \<Rightarrow> Scalar x | _ \<Rightarrow> Array xs)"

fun np_divide :: "ndarray \<Rightarrow> ndarray \<Rightarrow> error + ndarray" where
  "np_divide (Scalar a) (Scalar b) = Inr (Scalar (np_div a b))"
| "np_divide (Scalar a) (Array bs) = Inr (Array (map (np_div a) bs))"
| "np_divide (Array as) (Scalar b) = Inr (Array (map (\<lambda>a. np_div a b) as))"
| "np_divide (Array as) (Array bs) =
     (if length as = length bs then Inr (Array (map2 np_div as bs))
      else if length as = 1 then Inr (Array (map (np_div (hd as)) bs))
      else if length bs = 1 then Inr (Array (map (\<lambda>a. np_div a (hd bs)) as))
      else Inl (BroadcastError (length as) (length bs)))"

fun np_times :: "ndarray \<Rightarrow> npfloat \<Rightarrow> ndarray" where
  "np_times (Scalar a) f = Scalar (np_mul a f)"
| "np_times (Array as) f = Array (map (\<lambda>a. np_mul a f) as)"

definition getCalibratedSpectrum :: "npfloat list \<Rightarrow> npfloat list \<Rightarrow> npfloat \<Rightarrow> error + ndarray" where
  "getCalibratedSpectrum soil spectralon spectralon_factor =
     (case np_divide (np_squeeze soil) (np_squeeze spectralon) of
        Inl e \<Rightarrow> Inl e
      | Inr q \<Rightarrow> Inr (np_times q spectralon_factor))"

text \<open>The band values held by a result, a zero-dimensional array holding one.\<close>

fun band_values :: "ndarray \<Rightarrow> npfloat list" where
  "band_values (Scalar a) = [a]"
| "band_values (Array as) = as"

section \<open>Tables\<close>

text \<open>
  A pandas \<^verbatim>\<open>DataFrame\<close> is modelled by its column labels and its rows. A label is a
  wavelength or one of the strings the code uses as column names (the docstrings give the
  wavelengths as numbers, so no wavelength is such a string); a cell is a float, an
  integer or a string. The operations are the ones the code calls:
  \<^item> \<^verbatim>\<open>pd.DataFrame(data=[row], columns=cols)\<close> builds a table of one row and raises
    \<^verbatim>\<open>ValueError\<close> when the row and the labels differ in length;
  \<^item> \<^verbatim>\<open>pd.concat(frames, ignore_index=True)\<close> raises \<^verbatim>\<open>ValueError\<close> on an empty list and appends
    the rows of tables that have the same columns (the only case the code produces; the
    model stops with \<open>NotModelled\<close> on any other);
  \<^item> \<^verbatim>\<open>df[name] = values\<close> with a list raises \<^verbatim>\<open>ValueError\<close> unless the list has one value for
    each row, and then replaces the column of that name or appends a new one;
    with a scalar it fills the column with that value.
\<close>

datatype 'w label = Wavelength 'w | Name string

datatype cell = Num npfloat | IntCell int | StrCell string

record 'w frame =
  columns :: "'w label list"
  rows :: "cell list list"

definition DataFrame :: "npfloat list \<Rightarrow> 'w list \<Rightarrow> error + 'w frame" where
  "DataFrame data cols =
     (if length data \<noteq> length cols then Inl (ColumnsPassed (length cols) (length data))
      else Inr \<lparr>columns = map Wavelength cols, rows = [map Num data]\<rparr>)"

definition pd_concat :: "'w frame list \<Rightarrow> error + 'w frame" where
  "pd_concat frames =
     (case frames of
        [] \<Rightarrow> Inl NoObjectsToConcatenate
      | f # fs \<Rightarrow>
          if list_all (\<lambda>g. columns g = columns f) fs
          then Inr \<lparr>columns = columns f, rows = concat (map rows frames)\<rparr>
          else Inl NotModelled)"

definition put_cell :: "'w label list \<Rightarrow> 'w label \<Rightarrow> cell list \<Rightarrow> cell \<Rightarrow> cell list" where
  "put_cell cols name row v =
     (if name \<in> set cols then map (\<lambda>(c, old). if c = name then v else old) (zip cols row)
      else row @ [v])"

definition set_column :: "'w frame \<Rightarrow> 'w label \<Rightarrow> cell list \<Rightarrow> error + 'w frame" where
  "set_column df name vals =
     (if length vals \<noteq> length (rows df)
        then Inl (LengthOfValues (length vals) (length (rows df)))
      else Inr \<lparr>columns = (if name \<in> set (columns df) then columns df else columns df @ [name]),
               rows = map (\<lambda>(row, v). put_cell (columns df) name row v) (zip (rows df) vals)\<rparr>)"

definition set_column_scalar :: "'w frame \<Rightarrow> 'w label \<Rightarrow> cell \<Rightarrow> 'w frame" where
  "set_column_scalar df name v =
     \<lparr>columns = (if name \<in> set (columns df) then columns df else columns df @ [name]),
      rows = map (\<lambda>row. put_cell (columns df) name row v) (rows df)\<rparr>"

text \<open>A loop that calls a function which may raise, and stops at the first exception.\<close>

fun collect_results :: "('a \<Rightarrow> error + 'b) \<Rightarrow> 'a list \<Rightarrow> error + 'b list" where
  "collect_results f [] = Inr []"
| "collect_results f (x # xs) =
     (case f x of
        Inl e \<Rightarrow> Inl e
      | Inr y \<Rightarrow> (case collect_results f xs of Inl e \<Rightarrow> Inl e | Inr ys \<Rightarrow> Inr (y # ys)))"

section \<open>The class \<^verbatim>\<open>ProcessEnviFile\<close>\<close>

text \<open>
  The attributes of the object. \<^verbatim>\<open>positions\<close> is the dictionary of the positions file: a
  column name gives the list of that column's values, read at \<^verbatim>\<open>index_of_meas\<close>. The
  attribute \<^verbatim>\<open>grid_elements\<close> is only written and read inside
  \<^verbatim>\<open>getMeanSpectraFromSquareGrid\<close> and is a local value of the model.
\<close>

record 'w ProcessEnviFile = "'w bands" +
  the_image :: image
  the_mask :: mask
  zone_list :: "string list"
  positions :: "string \<Rightarrow> int list option"
  index_of_meas :: int
  grid :: "(int \<times> int) option"

text \<open>
  \<^verbatim>\<open>__init__\<close>: the arguments are stored, and the band lists are set up by the validation and
  the filter (\<open>init_bands\<close> above).
\<close>

definition init_ProcessEnviFile ::
  "image \<Rightarrow> 'w list \<Rightarrow> flag list \<Rightarrow> string list \<Rightarrow> (string \<Rightarrow> int list option) \<Rightarrow> int \<Rightarrow>
   mask \<Rightarrow> (int \<times> int) option \<Rightarrow> error + 'w ProcessEnviFile" where
  "init_ProcessEnviFile img wls bbl zones pos index msk g =
     (case init_bands wls bbl of
        Inl e \<Rightarrow> Inl e
      | Inr b \<Rightarrow>
          Inr \<lparr>wavelengths_original = wavelengths_original b, bbl_original = bbl_original b,
               wavelengths = wavelengths b,
               the_image = img, the_mask = msk, zone_list = zones, positions = pos,
               index_of_meas = index, grid = g\<rparr>)"

text \<open>Indexing a Python list: a negative index counts from the end.\<close>

definition py_getitem :: "'a list \<Rightarrow> int \<Rightarrow> error + 'a" where
  "py_getitem xs k =
     (if 0 \<le> k \<and> k < int (length xs) then Inr (xs ! nat k)
      else if k < 0 \<and> - int (length xs) \<le> k then Inr (xs ! nat (int (length xs) + k))
      else Inl IndexError)"

definition position_at :: "('w, 'z) ProcessEnviFile_scheme \<Rightarrow> string \<Rightarrow> error + int" where
  "position_at self key =
     (case positions self key of
        None \<Rightarrow> Inl (KeyError key)
      | Some column \<Rightarrow> py_getitem column (index_of_meas self))"

definition getEdgesFromPrefix :: "('w, 'z) ProcessEnviFile_scheme \<Rightarrow> string \<Rightarrow> error + edges" where
  "getEdgesFromPrefix self prefix =
     (case position_at self (prefix @ ''_row_start'') of Inl e \<Rightarrow> Inl e | Inr e0 \<Rightarrow>
       (case position_at self (prefix @ ''_row_end'') of Inl e \<Rightarrow> Inl e | Inr e1 \<Rightarrow>
         (case position_at self (prefix @ ''_col_start'') of Inl e \<Rightarrow> Inl e | Inr e2 \<Rightarrow>
           (case position_at self (prefix @ ''_col_end'') of Inl e \<Rightarrow> Inl e | Inr e3 \<Rightarrow>
              Inr (e0, e1, e2, e3)))))"

text \<open>
  \<^verbatim>\<open>getMeanSpectrumFromRectangle(edges, mode)\<close>: the loop over the band indices builds
  \<open>spectrum_mean\<close>, the bad bands are removed from it, and the result is a table of one row.
\<close>

fun spectrum_mean_loop ::
  "image \<Rightarrow> mask \<Rightarrow> edges \<Rightarrow> string \<Rightarrow> nat list \<Rightarrow> npfloat list \<Rightarrow> error + npfloat list" where
  "spectrum_mean_loop img msk edges mode [] spectrum_mean = Inr spectrum_mean"
| "spectrum_mean_loop img msk edges mode (i # rest) spectrum_mean =
     (case reduce_roi mode (collect_roi img msk edges i) of
        Inl e \<Rightarrow> Inl e
      | Inr None \<Rightarrow> spectrum_mean_loop img msk edges mode rest spectrum_mean
      | Inr (Some v) \<Rightarrow> spectrum_mean_loop img msk edges mode rest (spectrum_mean @ [v]))"

definition getMeanSpectrumFromRectangle ::
  "('w, 'z) ProcessEnviFile_scheme \<Rightarrow> edges \<Rightarrow> string \<Rightarrow> error + 'w frame" where
  "getMeanSpectrumFromRectangle self edges mode =
     (case spectrum_mean_loop (the_image self) (the_mask self) edges mode
             [0..<length (wavelengths_original self)] [] of
        Inl e \<Rightarrow> Inl e
      | Inr spectrum_mean \<Rightarrow>
          (case removeBadBands spectrum_mean (wavelengths_original self) (bbl_original self) of
             Inl e \<Rightarrow> Inl e
           | Inr (wls, spectrum) \<Rightarrow> DataFrame spectrum wls))"

text \<open>\<^verbatim>\<open>getMeanSpectraFromSquareGrid(edges, mode)\<close>.\<close>

definition getMeanSpectraFromSquareGrid ::
  "('w, 'z) ProcessEnviFile_scheme \<Rightarrow> edges \<Rightarrow> string \<Rightarrow> error + 'w frame" where
  "getMeanSpectraFromSquareGrid self edges mode =
     (let grid_real = getRealGridSize (grid self) edges;
          grid_elements = getGridElements (Some grid_real)
      in case getEdgesForGrid edges grid_real of Inl e \<Rightarrow> Inl e | Inr new_edges_list \<Rightarrow>
          (case collect_results (\<lambda>new_edges. getMeanSpectrumFromRectangle self new_edges mode)
                  new_edges_list of Inl e \<Rightarrow> Inl e | Inr spectra_list \<Rightarrow>
            (case pd_concat spectra_list of Inl e \<Rightarrow> Inl e | Inr df \<Rightarrow>
              (case set_column df (Name ''GridElement_Row'')
                      (map (\<lambda>el. IntCell (fst el)) grid_elements) of Inl e \<Rightarrow> Inl e | Inr df1 \<Rightarrow>
                 set_column df1 (Name ''GridElement_Column'')
                   (map (\<lambda>el. IntCell (snd el)) grid_elements)))))"

text \<open>
  \<^verbatim>\<open>getCalibratedSpectra(spectra, spectralon, spectralon_factor)\<close>. The columns
  \<^verbatim>\<open>self.wavelengths\<close> are selected from both tables (a missing label raises \<^verbatim>\<open>KeyError\<close>),
  every row of the selection is calibrated against the one row of the reference, and the
  calibrated rows are written back into these columns of a copy. With fewer than two
  usable bands \<^verbatim>\<open>np.squeeze\<close> collapses a row to a scalar, and with a repeated wavelength the
  selection repeats columns; what \<^verbatim>\<open>DataFrame.apply\<close> and the assignment then do depends on
  the version of pandas, and the model stops there with \<open>NotModelled\<close>.
\<close>

definition cell_float :: "cell \<Rightarrow> error + npfloat" where
  "cell_float c =
     (case c of Num x \<Rightarrow> Inr x | IntCell k \<Rightarrow> Inr (Finite (of_int k)) | StrCell s \<Rightarrow> Inl NotModelled)"

definition select_row :: "'w label list \<Rightarrow> cell list \<Rightarrow> 'w label list \<Rightarrow> error + npfloat list" where
  "select_row cols row names =
     collect_results (\<lambda>name. case map_of (zip cols row) name of
                               None \<Rightarrow> Inl (KeyError ''column'')
                             | Some c \<Rightarrow> cell_float c) names"

definition put_row :: "'w label list \<Rightarrow> cell list \<Rightarrow> 'w label list \<Rightarrow> npfloat list \<Rightarrow> cell list" where
  "put_row cols row names vals =
     map (\<lambda>(c, old). case map_of (zip names vals) c of None \<Rightarrow> old | Some v \<Rightarrow> Num v)
         (zip cols row)"

definition calibrate_row ::
  "'w label list \<Rightarrow> 'w label list \<Rightarrow> npfloat list \<Rightarrow> npfloat \<Rightarrow> cell list \<Rightarrow> error + cell list" where
  "calibrate_row cols names reference spectralon_factor row =
     (case select_row cols row names of Inl e \<Rightarrow> Inl e | Inr soil \<Rightarrow>
       (case getCalibratedSpectrum soil reference spectralon_factor of Inl e \<Rightarrow> Inl e | Inr res \<Rightarrow>
          Inr (put_row cols row names (band_values res))))"

definition getCalibratedSpectra ::
  "('w, 'z) ProcessEnviFile_scheme \<Rightarrow> 'w frame \<Rightarrow> 'w frame \<Rightarrow> npfloat \<Rightarrow> error + 'w frame" where
  "getCalibratedSpectra self spectra spectralon spectralon_factor =
     (let names = map Wavelength (wavelengths self)
      in if length names < 2 \<or> \<not> distinct names then Inl NotModelled
         else case rows spectralon of
                [reference_row] \<Rightarrow>
                  (case select_row (columns spectralon) reference_row names of
                     Inl e \<Rightarrow> Inl e
                   | Inr reference \<Rightarrow>
                       (case collect_results
                               (calibrate_row (columns spectra) names reference spectralon_factor)
                               (rows spectra) of
                          Inl e \<Rightarrow> Inl e
                        | Inr new_rows \<Rightarrow> Inr \<lparr>columns = columns spectra, rows = new_rows\<rparr>))
              | _ \<Rightarrow> Inl NotModelled)"

text \<open>\<^verbatim>\<open>getMultipleSpectra()\<close>: the reference spectrum, then the loop over the zones.\<close>

definition zone_spectra ::
  "('w, 'z) ProcessEnviFile_scheme \<Rightarrow> 'w frame \<Rightarrow> string \<Rightarrow> error + 'w frame" where
  "zone_spectra self df_spectralon zone =
     (case getEdgesFromPrefix self zone of Inl e \<Rightarrow> Inl e | Inr zone_edges \<Rightarrow>
       (case getMeanSpectraFromSquareGrid self zone_edges ''median'' of Inl e \<Rightarrow> Inl e | Inr df_zone \<Rightarrow>
          getCalibratedSpectra self (set_column_scalar df_zone (Name ''zone'') (StrCell zone))
            df_spectralon (Finite 0.95)))"

definition getMultipleSpectra :: "('w, 'z) ProcessEnviFile_scheme \<Rightarrow> error + 'w frame" where
  "getMultipleSpectra self =
     (case getEdgesFromPrefix self ''spec'' of Inl e \<Rightarrow> Inl e | Inr spec_edges \<Rightarrow>
       (case getMeanSpectrumFromRectangle self spec_edges ''max10'' of Inl e \<Rightarrow> Inl e | Inr df_spectralon \<Rightarrow>
         (case collect_results (zone_spectra self df_spectralon) (zone_list self) of
            Inl e \<Rightarrow> Inl e
          | Inr zone_spectra_cali \<Rightarrow> pd_concat zone_spectra_cali)))"

section \<open>A small capture used in the examples\<close>

text \<open>
  An object with three bands, the middle one flagged bad, no mask, one zone and the grid
  \<open>(1, 1)\<close>; the pixel at column \<open>col\<close> has the value \<open>10 * col + i\<close> in band \<open>i\<close>. The
  reference rectangle \<open>spec\<close> has three pixels, the zone four.
\<close>

definition example_image :: image where
  "example_image row col i = of_int (10 * col) + of_nat i"

definition example_positions :: "string \<Rightarrow> int list option" where
  "example_positions =
     map_of [(''spec_row_start'', [0]), (''spec_row_end'', [1]),
             (''spec_col_start'', [0]), (''spec_col_end'', [3]),
             (''zone1_row_start'', [2]), (''zone1_row_end'', [4]),
             (''zone1_col_start'', [1]), (''zone1_col_end'', [3])]"

definition example_object :: "int ProcessEnviFile" where
  "example_object =
     \<lparr>wavelengths_original = [450, 550, 650],
      bbl_original = [FlagInt 1, FlagInt 0, FlagInt 1],
      wavelengths = [450, 650],
      the_image = example_image, the_mask = None, zone_list = [''zone1''],
      positions = example_positions, index_of_meas = 0, grid = Some (1, 1)\<rparr>"

text \<open>
  A second capture on the same image with two zones of two and three pixel rows and the
  grid \<open>(0, 1)\<close>: one grid row for each pixel row, one grid column.
\<close>

definition example_zones :: "string \<Rightarrow> int list option" where
  "example_zones =
     map_of [(''spec_row_start'', [0]), (''spec_row_end'', [1]),
             (''spec_col_start'', [0]), (''spec_col_end'', [3]),
             (''zone1_row_start'', [2]), (''zone1_row_end'', [4]),
             (''zone1_col_start'', [1]), (''zone1_col_end'', [3]),
             (''zone2_row_start'', [0]), (''zone2_row_end'', [3]),
             (''zone2_col_start'', [0]), (''zone2_col_end'', [1])]"

definition example_capture :: "int ProcessEnviFile" where
  "example_capture =
     \<lparr>wavelengths_original = [450, 550, 650],
      bbl_original = [FlagInt 1, FlagInt 0, FlagInt 1],
      wavelengths = [450, 650],
      the_image = example_image, the_mask = None, zone_list = [''zone1'', ''zone2''],
      positions = example_zones, index_of_meas = 0, grid = Some (0, 1)\<rparr>"


section \<open>Verified properties\<close>

subsection \<open>Band filtering\<close>

text \<open>
  The loop of \<^verbatim>\<open>removeBadBands\<close> keeps, in order, the entries whose flag coerces to 1.
  The lemmas relate the accumulating loop to a filter over the zipped lists and to the
  sublist \<open>nths\<close> selected by an index set.
\<close>

lemma kept_nths:
  "length xs = length fs \<Longrightarrow>
   map fst (filter (\<lambda>p. P (snd p)) (zip xs fs)) = nths xs {i. i < length fs \<and> P (fs ! i)}"
proof (induction xs fs rule: list_induct2)
  case Nil then show ?case by simp
next
  case (Cons x xs f fs)
  have "{j. Suc j \<in> {i. i < length (f # fs) \<and> P ((f # fs) ! i)}} = {i. i < length fs \<and> P (fs ! i)}"
    by auto
  with Cons show ?case by (simp add: nths_Cons)
qed

lemma kept_length:
  "length xs = length fs \<Longrightarrow>
   length (filter (\<lambda>p. P (snd p)) (zip xs fs)) = length (filter P fs)"
  by (induction xs fs rule: list_induct2) simp_all

lemma removeBadBands_loop_filter:
  "length spectrum + i = length bbl \<Longrightarrow> length wl = length bbl \<Longrightarrow>
   \<forall>f\<in>set bbl. \<exists>v. py_int f = Inr v \<Longrightarrow>
   removeBadBands_loop i spectrum wl bbl nw ns =
     Inr (nw @ map fst (filter (\<lambda>p. py_int (snd p) = Inr 1) (zip (drop i wl) (drop i bbl))),
          ns @ map fst (filter (\<lambda>p. py_int (snd p) = Inr 1) (zip spectrum (drop i bbl))))"
proof (induction spectrum arbitrary: i nw ns)
  case Nil
  then show ?case by simp
next
  case (Cons r rest)
  then have i: "i < length bbl" "i < length wl" by auto
  then have d: "drop i bbl = bbl ! i # drop (Suc i) bbl" "drop i wl = wl ! i # drop (Suc i) wl"
    by (simp_all add: Cons_nth_drop_Suc)
  from Cons.prems i obtain v where v: "py_int (bbl ! i) = Inr v" by (meson nth_mem)
  have IH: "removeBadBands_loop (Suc i) rest wl bbl nw' ns' =
     Inr (nw' @ map fst (filter (\<lambda>p. py_int (snd p) = Inr 1) (zip (drop (Suc i) wl) (drop (Suc i) bbl))),
          ns' @ map fst (filter (\<lambda>p. py_int (snd p) = Inr 1) (zip rest (drop (Suc i) bbl))))" for nw' ns'
    using Cons.IH[of "Suc i" nw' ns'] Cons.prems by simp
  show ?case using i v by (simp add: d IH)
qed

lemma removeBadBands_nths:
  assumes "length spectrum = length bbl" and "length wls = length bbl"
    and "\<forall>f\<in>set bbl. \<exists>v. py_int f = Inr v"
  shows "removeBadBands spectrum wls bbl =
           Inr (nths wls {i. i < length bbl \<and> py_int (bbl ! i) = Inr 1},
                nths spectrum {i. i < length bbl \<and> py_int (bbl ! i) = Inr 1})"
  using removeBadBands_loop_filter[of spectrum 0 bbl wls "[]" "[]"] assms
    kept_nths[of wls bbl "\<lambda>f. py_int f = Inr 1"] kept_nths[of spectrum bbl "\<lambda>f. py_int f = Inr 1"]
  by (simp add: removeBadBands_def)

lemma length_nths_flags:
  assumes "length xs = length bbl"
  shows "length (nths xs {i. i < length bbl \<and> P (bbl ! i)}) = length (filter P bbl)"
  using kept_nths[OF assms, of P] kept_length[OF assms, of P]
  by (metis length_map)

lemma py_int_str_one: "py_int_str ''1'' = Inr 1"
  by code_simp

lemma removeBadBands_keep_flag_one:
  assumes "length spectrum = length bbl" and "length wls = length bbl"
    and "\<forall>f\<in>set bbl. \<exists>v. py_int f = Inr v"
  shows "removeBadBands spectrum wls bbl = Inr (keep_flag_one wls bbl, keep_flag_one spectrum bbl)"
  using removeBadBands_loop_filter[of spectrum 0 bbl wls "[]" "[]"] assms
  by (simp add: removeBadBands_def keep_flag_one_def)

lemma keep_flag_one_all:
  "length wls = n \<Longrightarrow> keep_flag_one wls (replicate n (FlagInt 1)) = wls"
  by (induction wls arbitrary: n) (auto simp: keep_flag_one_def)

lemma keep_flag_one_nths:
  "length xs = length bbl \<Longrightarrow>
   keep_flag_one xs bbl = nths xs {i. i < length bbl \<and> py_int (bbl ! i) = Inr 1}"
  unfolding keep_flag_one_def by (rule kept_nths)

lemma py_int_str_x: "py_int_str ''x'' = Inl (InvalidLiteral ''x'')"
  by code_simp

text \<open>
  The band set-up of the constructor on lists of equal length: the lists that reach the
  filter are the input lists, without their first entries when there are exactly 139
  wavelengths, and only the flags of these lists are read.
\<close>

lemma init_bands_aligned:
  assumes "length wls = length bbl"
    and "\<forall>f\<in>set (if length wls = 139 then drop 1 bbl else bbl). \<exists>v. py_int f = Inr v"
  shows "init_bands wls bbl =
           Inr \<lparr>wavelengths_original = (if length wls = 139 then drop 1 wls else wls),
                bbl_original = (if length wls = 139 then drop 1 bbl else bbl),
                wavelengths = keep_flag_one (if length wls = 139 then drop 1 wls else wls)
                                            (if length wls = 139 then drop 1 bbl else bbl)\<rparr>"
proof (cases "length wls = 139")
  case True
  have "\<forall>f\<in>set (drop 1 bbl). \<exists>v. py_int f = Inr v"
    using assms(2) True by simp
  then have "removeBadBands (drop 1 wls) (drop 1 wls) (drop 1 bbl) =
          Inr (keep_flag_one (drop 1 wls) (drop 1 bbl), keep_flag_one (drop 1 wls) (drop 1 bbl))"
    using assms(1) by (intro removeBadBands_keep_flag_one) simp_all
  with True assms(1) show ?thesis
    by (simp add: init_bands_def validateWavelengths_def)
next
  case False
  have "removeBadBands wls wls bbl = Inr (keep_flag_one wls bbl, keep_flag_one wls bbl)"
    using assms False by (intro removeBadBands_keep_flag_one) simp_all
  with False assms(1) show ?thesis
    by (simp add: init_bands_def validateWavelengths_def)
qed

text \<open>
  Claim C6, as the code has it. Let the wavelength and flag lists have equal length, let
  \<open>wo\<close> and \<open>bo\<close> be the lists that \<^verbatim>\<open>validateWavelengths\<close> hands to the filter (the input
  lists, or the input lists without index 0 when there are exactly 139 wavelengths), and
  let every flag of \<open>bo\<close> coerce to an integer. Then the constructor keeps as
  \<^verbatim>\<open>self.wavelengths\<close> exactly the entries of \<open>wo\<close> at the indices \<open>i\<close> whose flag
  \<open>int(bo[i])\<close> equals 1, in the order of the input (\<open>nths\<close> neither reorders nor removes
  duplicates), their number is the number of flags of \<open>bo\<close> equal to 1, and
  \<^verbatim>\<open>removeBadBands\<close> keeps the entries at the same indices of every spectrum of that length.
  So the output length is the number of input flags equal to 1 when the length is not 139,
  and the number of such flags at the indices 1 to 138 when it is.
\<close>

theorem init_bands_keeps_flag_one:
  fixes wls :: "'w list"
  assumes "length wls = length bbl"
    and "wo = (if length wls = 139 then drop 1 wls else wls)"
    and "bo = (if length wls = 139 then drop 1 bbl else bbl)"
    and "\<forall>f\<in>set bo. \<exists>v. py_int f = Inr v"
  shows "init_bands wls bbl =
           Inr \<lparr>wavelengths_original = wo, bbl_original = bo,
                wavelengths = nths wo {i. i < length bo \<and> py_int (bo ! i) = Inr 1}\<rparr>
         \<and> length (nths wo {i. i < length bo \<and> py_int (bo ! i) = Inr 1}) =
             length (filter (\<lambda>f. py_int f = Inr 1) bo)
         \<and> (\<forall>spectrum :: 'a list. length spectrum = length bo \<longrightarrow>
              removeBadBands spectrum wo bo =
                Inr (nths wo {i. i < length bo \<and> py_int (bo ! i) = Inr 1},
                     nths spectrum {i. i < length bo \<and> py_int (bo ! i) = Inr 1}))"
proof -
  have l: "length wo = length bo"
    using assms(1-3) by simp
  have a: "init_bands wls bbl =
           Inr \<lparr>wavelengths_original = wo, bbl_original = bo, wavelengths = keep_flag_one wo bo\<rparr>"
    using init_bands_aligned[of wls bbl] assms by simp
  have b: "length (nths wo {i. i < length bo \<and> py_int (bo ! i) = Inr 1}) =
             length (filter (\<lambda>f. py_int f = Inr 1) bo)"
    using l by (rule length_nths_flags)
  have c: "removeBadBands spectrum wo bo =
                Inr (nths wo {i. i < length bo \<and> py_int (bo ! i) = Inr 1},
                     nths spectrum {i. i < length bo \<and> py_int (bo ! i) = Inr 1})"
    if "length spectrum = length bo" for spectrum :: "'a list"
    using that l assms(4) by (rule removeBadBands_nths)
  from a b c show ?thesis by (simp add: keep_flag_one_nths[OF l])
qed

theorem init_bands_keeps_flag_one_witness:
  "length [450::int, 550, 650] = length [FlagStr ''1'', FlagInt 0, FlagBool True]
   \<and> length [450::int, 550, 650] \<noteq> 139
   \<and> py_int (FlagStr ''1'') = Inr 1 \<and> py_int (FlagInt 0) = Inr 0 \<and> py_int (FlagBool True) = Inr 1
   \<and> init_bands [450::int, 550, 650] [FlagStr ''1'', FlagInt 0, FlagBool True] =
       Inr \<lparr>wavelengths_original = [450, 550, 650],
            bbl_original = [FlagStr ''1'', FlagInt 0, FlagBool True],
            wavelengths = [450, 650]\<rparr>
   \<and> length [450::int, 650] =
       length (filter (\<lambda>f. py_int f = Inr 1) [FlagStr ''1'', FlagInt 0, FlagBool True])
   \<and> removeBadBands [7::int, 8, 9] [450::int, 550, 650] [FlagStr ''1'', FlagInt 0, FlagBool True]
       = Inr ([450, 650], [7, 9])"
proof -
  let ?w = "[450::int, 550, 650]"
  let ?b = "[FlagStr ''1'', FlagInt 0, FlagBool True]"
  let ?S = "{i. i < length ?b \<and> py_int (?b ! i) = Inr 1}"
  have h1: "length ?w = length ?b" by simp
  have n: "length ?w \<noteq> 139" by simp
  have h2: "?w = (if length ?w = 139 then drop 1 ?w else ?w)" by simp
  have h3: "?b = (if length ?w = 139 then drop 1 ?b else ?b)" by simp
  have p: "py_int (FlagStr ''1'') = Inr 1" "py_int (FlagInt 0) = Inr 0"
    "py_int (FlagBool True) = Inr 1"
    by (simp_all add: py_int_str_one)
  have h4: "\<forall>f\<in>set ?b. \<exists>v. py_int f = Inr v"
    by (simp add: py_int_str_one)
  have h5: "length [7::int, 8, 9] = length ?b" by simp
  note T = init_bands_keeps_flag_one [OF h1 h2 h3 h4]
  have e: "removeBadBands [7::int, 8, 9] ?w ?b = Inr ([450, 650], [7, 9])"
    by code_simp
  have r: "removeBadBands [7::int, 8, 9] ?w ?b = Inr (nths ?w ?S, nths [7::int, 8, 9] ?S)"
    by (rule T [THEN conjunct2, THEN conjunct2, rule_format, OF h5])
  have "(Inr (nths ?w ?S, nths [7::int, 8, 9] ?S) :: error + int list \<times> int list)
          = Inr ([450, 650], [7, 9])"
    by (rule trans [OF sym [OF r] e])
  then have k: "nths ?w ?S = [450, 650]"
    by (simp only: sum.inject prod.inject)
  have a: "init_bands ?w ?b =
       Inr \<lparr>wavelengths_original = ?w, bbl_original = ?b, wavelengths = [450, 650]\<rparr>"
    by (rule T [THEN conjunct1, unfolded k])
  have c: "length [450::int, 650] = length (filter (\<lambda>f. py_int f = Inr 1) ?b)"
    by (simp add: py_int_str_one)
  show ?thesis by (intro conjI; fact)
qed

text \<open>
  Counterexample to claim C6 as stated: with 139 wavelengths and 139 flags that are all 1
  the constructor keeps 138 bands, not 139; the band at index 0 has the flag 1 and is not
  kept.
\<close>

theorem init_bands_139_flags_counterexample:
  "length [0..138::int] = length (replicate 139 (FlagInt 1))
   \<and> init_bands [0..138::int] (replicate 139 (FlagInt 1)) =
       Inr \<lparr>wavelengths_original = drop 1 [0..138], bbl_original = replicate 138 (FlagInt 1),
            wavelengths = drop 1 [0..138]\<rparr>
   \<and> length (drop 1 [0..138::int]) = 138
   \<and> length (filter (\<lambda>f. py_int f = Inr 1) (replicate 139 (FlagInt 1))) = 139
   \<and> py_int (replicate 139 (FlagInt 1) ! 0) = Inr 1
   \<and> [0..138::int] ! 0 \<notin> set (drop 1 [0..138::int])"
proof -
  have n: "length [0..138::int] = 139" by simp
  have l: "length [0..138::int] = length (replicate 139 (FlagInt 1))" by simp
  have d: "drop 1 (replicate 139 (FlagInt 1)) = replicate 138 (FlagInt 1)" by simp
  have f: "\<forall>f\<in>set (if length [0..138::int] = 139 then drop 1 (replicate 139 (FlagInt 1))
                      else replicate 139 (FlagInt 1)). \<exists>v. py_int f = Inr v"
    by simp
  have s: "length (drop 1 [0..138::int]) = 138" by simp
  then have k: "keep_flag_one (drop 1 [0..138::int]) (replicate 138 (FlagInt 1)) = drop 1 [0..138]"
    by (rule keep_flag_one_all)
  have a: "init_bands [0..138::int] (replicate 139 (FlagInt 1)) =
       Inr \<lparr>wavelengths_original = drop 1 [0..138], bbl_original = replicate 138 (FlagInt 1),
            wavelengths = drop 1 [0..138]\<rparr>"
    using init_bands_aligned [OF l f] n d k by presburger
  have c: "length (filter (\<lambda>f. py_int f = Inr 1) (replicate 139 (FlagInt 1))) = 139"
    by simp
  have z: "py_int (replicate 139 (FlagInt 1) ! 0) = Inr 1" by simp
  have u: "[0..138::int] = 0 # [1..138]" using upto_rec1[of 0 138] by simp
  have m: "[0..138::int] ! 0 \<notin> set (drop 1 [0..138::int])"
    unfolding u by simp
  show ?thesis by (intro conjI; fact)
qed

text \<open>
  Claim C8. When the wavelength and flag lists differ in length, \<^verbatim>\<open>validateWavelengths\<close>
  raises its \<^verbatim>\<open>ValueError\<close> on the lengths, and so does the band set-up of the constructor,
  which therefore never reaches the filter.
\<close>

theorem validateWavelengths_length_mismatch:
  "length wls \<noteq> length bbl \<Longrightarrow>
     validateWavelengths wls bbl = Inl (LengthNotEqual (length wls) (length bbl))
     \<and> init_bands wls bbl = Inl (LengthNotEqual (length wls) (length bbl))"
  by (simp add: validateWavelengths_def init_bands_def)

theorem validateWavelengths_length_mismatch_witness:
  "length [450::int, 550] \<noteq> length [FlagInt 1]
   \<and> validateWavelengths [450::int, 550] [FlagInt 1] = Inl (LengthNotEqual 2 1)
   \<and> init_bands [450::int, 550] [FlagInt 1] = Inl (LengthNotEqual 2 1)"
  using validateWavelengths_length_mismatch[of "[450::int, 550]" "[FlagInt 1]"] by simp

subsection \<open>Grid geometry\<close>

text \<open>
  Claim C4. On the rectangle \<open>[10, 15, 5, 8]\<close> the grid \<open>(1, 1)\<close> gives the rectangle itself
  as the only cell, and the grid \<open>(2, 2)\<close> gives six cells in row-major order: two rows of
  height 2 (row 14 is left out) and three columns of width 1.
\<close>

theorem getEdgesForGrid_example:
  "getEdgesForGrid (10, 15, 5, 8) (getRealGridSize (Some (1, 1)) (10, 15, 5, 8)) = Inr [(10, 15, 5, 8)]
   \<and> getEdgesForGrid (10, 15, 5, 8) (getRealGridSize (Some (2, 2)) (10, 15, 5, 8)) =
       Inr [(10, 12, 5, 6), (10, 12, 6, 7), (10, 12, 7, 8),
            (12, 14, 5, 6), (12, 14, 6, 7), (12, 14, 7, 8)]"
  by (simp add: getEdgesForGrid_def getRealGridSize_def py_int_truediv_def new_starts_def py_range_def upto_rec1)

subsection \<open>The 139-band alignment rule\<close>

text \<open>
  Claim C7. For equal-length sequences the band set-up of the constructor
  (\<^verbatim>\<open>validateWavelengths\<close> followed by \<^verbatim>\<open>removeBadBands\<close>) computes \<open>BandFilter_spec\<close>: with
  exactly 139 wavelengths index 0 of both sequences is discarded before filtering, and
  with any other length the sequences reach the filter unchanged. The flags that the
  filter reads have to coerce to an integer; the flag at index 0 of 139 is never read.
\<close>

theorem init_bands_refines_BandFilter_spec:
  assumes "length wls = length bbl"
    and "\<forall>f\<in>set (if length wls = 139 then drop 1 bbl else bbl). \<exists>v. py_int f = Inr v"
  shows "init_bands wls bbl =
           Inr \<lparr>wavelengths_original = (if length wls = 139 then drop 1 wls else wls),
                bbl_original = (if length wls = 139 then drop 1 bbl else bbl),
                wavelengths = BandFilter_spec wls bbl\<rparr>"
  using init_bands_aligned [OF assms] by (simp add: BandFilter_spec_def)

theorem init_bands_refines_BandFilter_spec_witness:
  "length [0..138::int] = 139
   \<and> length [0..138::int] = length (FlagStr ''x'' # replicate 138 (FlagInt 1))
   \<and> py_int (FlagStr ''x'') = Inl (InvalidLiteral ''x'')
   \<and> init_bands [0..138::int] (FlagStr ''x'' # replicate 138 (FlagInt 1)) =
       Inr \<lparr>wavelengths_original = drop 1 [0..138], bbl_original = replicate 138 (FlagInt 1),
            wavelengths = drop 1 [0..138]\<rparr>
   \<and> init_bands [450::int, 550] [FlagInt 0, FlagInt 1] =
       Inr \<lparr>wavelengths_original = [450, 550], bbl_original = [FlagInt 0, FlagInt 1],
            wavelengths = [550]\<rparr>"
proof -
  let ?b = "FlagStr ''x'' # replicate 138 (FlagInt 1)"
  have n: "length [0..138::int] = 139" by simp
  have l: "length [0..138::int] = length ?b" by simp
  have x: "py_int (FlagStr ''x'') = Inl (InvalidLiteral ''x'')" by (simp add: py_int_str_x)
  have d: "drop 1 ?b = replicate 138 (FlagInt 1)" by simp
  have f: "\<forall>f\<in>set (if length [0..138::int] = 139 then drop 1 ?b else ?b). \<exists>v. py_int f = Inr v"
    by simp
  have "length (drop 1 [0..138::int]) = 138" by simp
  then have k: "keep_flag_one (drop 1 [0..138::int]) (replicate 138 (FlagInt 1)) = drop 1 [0..138]"
    by (rule keep_flag_one_all)
  have b: "BandFilter_spec [0..138::int] ?b = drop 1 [0..138]"
    unfolding BandFilter_spec_def d using n k by presburger
  have a: "init_bands [0..138::int] ?b =
       Inr \<lparr>wavelengths_original = drop 1 [0..138], bbl_original = replicate 138 (FlagInt 1),
            wavelengths = drop 1 [0..138]\<rparr>"
    using init_bands_refines_BandFilter_spec [OF l f] n d b by presburger
  have l2: "length [450::int, 550] = length [FlagInt 0, FlagInt 1]" by simp
  have f2: "\<forall>f\<in>set (if length [450::int, 550] = 139 then drop 1 [FlagInt 0, FlagInt 1]
                       else [FlagInt 0, FlagInt 1]). \<exists>v. py_int f = Inr v" by simp
  have b2: "BandFilter_spec [450::int, 550] [FlagInt 0, FlagInt 1] = [550]"
    by (simp add: BandFilter_spec_def keep_flag_one_def)
  have a2: "init_bands [450::int, 550] [FlagInt 0, FlagInt 1] =
       Inr \<lparr>wavelengths_original = [450, 550], bbl_original = [FlagInt 0, FlagInt 1],
            wavelengths = [550]\<rparr>"
    using init_bands_refines_BandFilter_spec [OF l2 f2] b2 by simp
  show ?thesis by (intro conjI; fact)
qed

subsection \<open>Cells of the grid\<close>

lemma py_int_truediv_nonneg:
  "0 \<le> a \<Longrightarrow> 0 < b \<Longrightarrow> py_int_truediv a b = Inr (a div b)"
  by (cases "a = 0") (simp_all add: py_int_truediv_def)

lemma py_int_truediv_zero: "py_int_truediv a 0 = Inl ZeroDivisionError"
  by (simp add: py_int_truediv_def)

lemma set_new_starts: "set (new_starts s h n) = (\<lambda>i. s + h * i) ` {0..n - 1}"
  by (simp add: new_starts_def py_range_def)

lemma length_new_starts: "length (new_starts s h n) = nat n"
  by (simp add: new_starts_def py_range_def)

lemma distinct_new_starts: "1 \<le> h \<Longrightarrow> distinct (new_starts s h n)"
  by (simp add: new_starts_def py_range_def distinct_map inj_on_def)

lemma new_starts_bounds:
  assumes "x \<in> set (new_starts s h (E div h))" and "1 \<le> h" and "0 \<le> E"
  shows "s \<le> x \<and> x + h \<le> s + h * (E div h) \<and> s + h * (E div h) \<le> s + E"
proof -
  from assms(1) obtain i where i: "0 \<le> i" "i \<le> E div h - 1" "x = s + h * i"
    by (auto simp: set_new_starts)
  have "h * (i + 1) \<le> h * (E div h)"
    using i(2) assms(2) by (intro mult_left_mono) simp_all
  moreover have "h * (E div h) \<le> E"
    using assms(2) mult_div_mod_eq[of h E] pos_mod_sign[of h E] by linarith
  moreover have "0 \<le> h * i" using i(1) assms(2) by simp
  ultimately show ?thesis using i(3) by (simp add: algebra_simps)
qed

lemma new_starts_apart:
  assumes "x \<in> set (new_starts s h n)" and "y \<in> set (new_starts s h n)"
    and "x \<noteq> y" and "1 \<le> h"
  shows "x + h \<le> y \<or> y + h \<le> x"
proof -
  from assms(1,2) obtain i j where ij: "x = s + h * i" "y = s + h * j"
    by (auto simp: set_new_starts)
  with assms(3) have "i \<noteq> j" by auto
  then consider "i + 1 \<le> j" | "j + 1 \<le> i" by linarith
  then show ?thesis
  proof cases
    case 1
    then have "h * (i + 1) \<le> h * j" using assms(4) by (intro mult_left_mono) simp_all
    then show ?thesis using ij by (simp add: algebra_simps)
  next
    case 2
    then have "h * (j + 1) \<le> h * i" using assms(4) by (intro mult_left_mono) simp_all
    then show ?thesis using ij by (simp add: algebra_simps)
  qed
qed

lemma concat_map_product:
  "concat (map (\<lambda>x. map (\<lambda>y. f x y) ys) xs) = map (\<lambda>(x, y). f x y) (List.product xs ys)"
  by (induction xs) (simp_all add: comp_def)

lemma getEdgesForGrid_product:
  assumes "e0 < e1" and "e2 < e3" and "0 < g0" and "0 < g1"
    and "(e1 - e0) div g0 \<noteq> 0" and "(e3 - e2) div g1 \<noteq> 0"
  shows "getEdgesForGrid (e0, e1, e2, e3) (g0, g1) =
     Inr (map (\<lambda>(row_s, col_s).
                 (row_s, row_s + (e1 - e0) div g0, col_s, col_s + (e3 - e2) div g1))
            (List.product
               (new_starts e0 ((e1 - e0) div g0) ((e1 - e0) div ((e1 - e0) div g0)))
               (new_starts e2 ((e3 - e2) div g1) ((e3 - e2) div ((e3 - e2) div g1)))))"
proof -
  have h: "0 < (e1 - e0) div g0" using assms(1,3,5)
    by (metis diff_gt_0_iff_gt less_le pos_imp_zdiv_nonneg_iff less_imp_le)
  have w: "0 < (e3 - e2) div g1" using assms(2,4,6)
    by (metis diff_gt_0_iff_gt less_le pos_imp_zdiv_nonneg_iff less_imp_le)
  show ?thesis
    using assms(1-4) h w
    by (simp add: getEdgesForGrid_def py_int_truediv_nonneg concat_map_product)
qed

lemma getEdgesForGrid_degenerate:
  assumes "e0 < e1" and "e2 < e3" and "0 < g0" and "0 < g1"
    and "(e1 - e0) div g0 = 0 \<or> (e3 - e2) div g1 = 0"
  shows "getEdgesForGrid (e0, e1, e2, e3) (g0, g1) = Inl ZeroDivisionError"
proof (cases "(e1 - e0) div g0 = 0")
  case True
  then show ?thesis using assms(1-4)
    by (simp add: getEdgesForGrid_def py_int_truediv_nonneg py_int_truediv_zero)
next
  case False
  then have h: "0 < (e1 - e0) div g0" using assms(1,3)
    by (metis diff_gt_0_iff_gt less_le pos_imp_zdiv_nonneg_iff less_imp_le)
  from False assms(5) have "(e3 - e2) div g1 = 0" by simp
  then show ?thesis using assms(1-4) h
    by (simp add: getEdgesForGrid_def py_int_truediv_nonneg py_int_truediv_zero)
qed


lemma py_int_truediv_ge_1:
  assumes "0 < a" and "py_int_truediv a b = Inr h" and "1 \<le> h"
  shows "0 < b \<and> h = a div b"
proof -
  from assms(2) have b: "b \<noteq> 0" and h: "h = sgn a * sgn b * (\<bar>a\<bar> div \<bar>b\<bar>)"
    by (auto simp: py_int_truediv_def split: if_splits)
  have "0 \<le> \<bar>a\<bar> div \<bar>b\<bar>" using b by (simp add: pos_imp_zdiv_nonneg_iff)
  show ?thesis
  proof (cases "0 < b")
    case True
    with assms(1) h show ?thesis by simp
  next
    case False
    with b have "b < 0" by simp
    with assms(1) h have "h = - (\<bar>a\<bar> div \<bar>b\<bar>)" by simp
    with \<open>0 \<le> \<bar>a\<bar> div \<bar>b\<bar>\<close> assms(3) show ?thesis by simp
  qed
qed

lemma pixels_apart_rows:
  "r + h \<le> r' \<or> r' + h \<le> r \<Longrightarrow> pixels (r, r + h, c, c + w) \<inter> pixels (r', r' + h, c', c' + w) = {}"
  by (auto simp: pixels_def)

lemma pixels_apart_cols:
  "c + w \<le> c' \<or> c' + w \<le> c \<Longrightarrow> pixels (r, r + h, c, c + w) \<inter> pixels (r', r' + h, c', c' + w) = {}"
  by (auto simp: pixels_def)

text \<open>
  Claim C10. For a rectangle with positive row and column extent and a grid size for which
  the cell height \<^verbatim>\<open>int(rows / grid_real[0])\<close> and the cell width
  \<^verbatim>\<open>int(columns / grid_real[1])\<close> are at least 1, \<^verbatim>\<open>getEdgesForGrid\<close> returns cells that all
  lie inside the rectangle, all have that height and that width, and whose pixel sets are
  pairwise disjoint.
\<close>

theorem getEdgesForGrid_cells_inside_disjoint_uniform:
  assumes "e0 < e1" and "e2 < e3"
    and "py_int_truediv (e1 - e0) g0 = Inr height" and "1 \<le> height"
    and "py_int_truediv (e3 - e2) g1 = Inr width" and "1 \<le> width"
  shows "\<exists>cells. getEdgesForGrid (e0, e1, e2, e3) (g0, g1) = Inr cells
           \<and> (\<forall>c\<in>set cells.
                 pixels c \<subseteq> pixels (e0, e1, e2, e3)
                 \<and> (case c of (r0, r1, c0, c1) \<Rightarrow>
                       e0 \<le> r0 \<and> r1 \<le> e1 \<and> e2 \<le> c0 \<and> c1 \<le> e3
                       \<and> r1 - r0 = height \<and> c1 - c0 = width))
           \<and> (\<forall>i<length cells. \<forall>j<length cells.
                 i \<noteq> j \<longrightarrow> pixels (cells ! i) \<inter> pixels (cells ! j) = {})"
proof -
  from py_int_truediv_ge_1[OF _ assms(3,4)] assms(1)
  have g0: "0 < g0" and h: "height = (e1 - e0) div g0" by simp_all
  from py_int_truediv_ge_1[OF _ assms(5,6)] assms(2)
  have g1: "0 < g1" and w: "width = (e3 - e2) div g1" by simp_all
  define rs where "rs = new_starts e0 height ((e1 - e0) div height)"
  define cs where "cs = new_starts e2 width ((e3 - e2) div width)"
  define F where "F = (\<lambda>(row_s :: int, col_s :: int). (row_s, row_s + height, col_s, col_s + width))"
  define cells where "cells = map F (List.product rs cs)"
  have eq: "getEdgesForGrid (e0, e1, e2, e3) (g0, g1) = Inr cells"
    using getEdgesForGrid_product[OF assms(1,2) g0 g1] assms(4,6) h w
    by (simp add: cells_def F_def rs_def cs_def)
  have rb: "e0 \<le> r \<and> r + height \<le> e1" if "r \<in> set rs" for r
    using new_starts_bounds[of r e0 height "e1 - e0"] that assms(1,4) by (simp add: rs_def)
  have cb: "e2 \<le> c \<and> c + width \<le> e3" if "c \<in> set cs" for c
    using new_starts_bounds[of c e2 width "e3 - e2"] that assms(2,6) by (simp add: cs_def)
  have inside: "pixels c \<subseteq> pixels (e0, e1, e2, e3)
      \<and> (case c of (r0, r1, c0, c1) \<Rightarrow>
            e0 \<le> r0 \<and> r1 \<le> e1 \<and> e2 \<le> c0 \<and> c1 \<le> e3 \<and> r1 - r0 = height \<and> c1 - c0 = width)"
    if "c \<in> set cells" for c
  proof -
    from that obtain r k where rk: "r \<in> set rs" "k \<in> set cs" "c = (r, r + height, k, k + width)"
      by (auto simp: cells_def F_def)
    from rb[OF rk(1)] cb[OF rk(2)] show ?thesis
      by (auto simp: rk(3) pixels_def)
  qed
  have d: "distinct (List.product rs cs)"
    using assms(4,6) by (simp add: rs_def cs_def distinct_product distinct_new_starts)
  have disj: "pixels (cells ! i) \<inter> pixels (cells ! j) = {}"
    if "i < length cells" "j < length cells" "i \<noteq> j" for i j
  proof -
    from that have ij: "i < length (List.product rs cs)" "j < length (List.product rs cs)"
      by (simp_all add: cells_def)
    obtain r k where p: "List.product rs cs ! i = (r, k)" by (cases "List.product rs cs ! i")
    obtain r' k' where q: "List.product rs cs ! j = (r', k')" by (cases "List.product rs cs ! j")
    from d ij that(3) have ne: "(r, k) \<noteq> (r', k')"
      by (metis nth_eq_iff_index_eq p q)
    from ij p have m: "r \<in> set rs" "k \<in> set cs"
      by (metis nth_mem mem_Sigma_iff set_product)+
    from ij q have m': "r' \<in> set rs" "k' \<in> set cs"
      by (metis nth_mem mem_Sigma_iff set_product)+
    have ci: "cells ! i = (r, r + height, k, k + width)"
      using ij(1) p by (simp add: cells_def F_def)
    have cj: "cells ! j = (r', r' + height, k', k' + width)"
      using ij(2) q by (simp add: cells_def F_def)
    show ?thesis
    proof (cases "r = r'")
      case False
      with new_starts_apart[of r e0 height _ r'] m(1) m'(1) assms(4)
      have "r + height \<le> r' \<or> r' + height \<le> r" by (simp add: rs_def)
      then show ?thesis unfolding ci cj by (rule pixels_apart_rows)
    next
      case True
      with ne have "k \<noteq> k'" by simp
      with new_starts_apart[of k e2 width _ k'] m(2) m'(2) assms(6)
      have "k + width \<le> k' \<or> k' + width \<le> k" by (simp add: cs_def)
      then show ?thesis unfolding ci cj by (rule pixels_apart_cols)
    qed
  qed
  from eq inside disj show ?thesis by blast
qed

theorem getEdgesForGrid_cells_inside_disjoint_uniform_witness:
  "(10::int) < 15 \<and> (5::int) < 8
   \<and> py_int_truediv (15 - 10) 2 = Inr 2 \<and> py_int_truediv (8 - 5) 2 = Inr 1
   \<and> (\<exists>cells. getEdgesForGrid (10, 15, 5, 8) (2, 2) = Inr cells
           \<and> (\<forall>c\<in>set cells.
                 pixels c \<subseteq> pixels (10, 15, 5, 8)
                 \<and> (case c of (r0, r1, c0, c1) \<Rightarrow>
                       10 \<le> r0 \<and> r1 \<le> 15 \<and> 5 \<le> c0 \<and> c1 \<le> 8
                       \<and> r1 - r0 = 2 \<and> c1 - c0 = 1))
           \<and> (\<forall>i<length cells. \<forall>j<length cells.
                 i \<noteq> j \<longrightarrow> pixels (cells ! i) \<inter> pixels (cells ! j) = {}))"
proof -
  have a: "(10::int) < 15" "(5::int) < 8" by simp_all
  have h: "py_int_truediv (15 - 10) 2 = Inr 2" "(1::int) \<le> 2"
    by (simp_all add: py_int_truediv_def)
  have w: "py_int_truediv (8 - 5) 2 = Inr 1" "(1::int) \<le> 1"
    by (simp_all add: py_int_truediv_def)
  from getEdgesForGrid_cells_inside_disjoint_uniform [OF a h w] a h(1) w(1)
  show ?thesis by blast
qed

subsection \<open>Cell starts and the remainder of the rectangle\<close>

lemma new_starts_cover:
  assumes "1 \<le> h"
  shows "(\<exists>r\<in>set (new_starts s h n). r \<le> x \<and> x < r + h) \<longleftrightarrow> s \<le> x \<and> x < s + h * n \<and> 0 < n"
proof
  assume "\<exists>r\<in>set (new_starts s h n). r \<le> x \<and> x < r + h"
  then obtain i where i: "0 \<le> i" "i \<le> n - 1" "s + h * i \<le> x" "x < s + h * i + h"
    by (auto simp: set_new_starts)
  have "h * (i + 1) \<le> h * n" using i(2) assms by (intro mult_left_mono) simp_all
  then have 1: "h * i + h \<le> h * n" by (simp add: algebra_simps)
  have 2: "0 \<le> h * i" using i(1) assms by simp
  from 1 2 i show "s \<le> x \<and> x < s + h * n \<and> 0 < n" by linarith
next
  assume a: "s \<le> x \<and> x < s + h * n \<and> 0 < n"
  define i where "i = (x - s) div h"
  have hp: "0 < h" using assms by simp
  have m: "h * i + (x - s) mod h = x - s" unfolding i_def by (rule mult_div_mod_eq)
  have m0: "0 \<le> (x - s) mod h" "(x - s) mod h < h"
    using hp by (simp_all add: pos_mod_sign pos_mod_bound)
  have i0: "0 \<le> i" unfolding i_def using a hp by (simp add: pos_imp_zdiv_nonneg_iff)
  have "i < n"
  proof (rule ccontr)
    assume "\<not> i < n"
    then have "h * n \<le> h * i" using assms by (intro mult_left_mono) simp_all
    with m m0 a show False by linarith
  qed
  then have "s + h * i \<in> set (new_starts s h n)" using i0 by (auto simp: set_new_starts)
  moreover have "s + h * i \<le> x \<and> x < s + h * i + h" using m m0 by linarith
  ultimately show "\<exists>r\<in>set (new_starts s h n). r \<le> x \<and> x < r + h" by blast
qed

lemma nominal_le_count:
  assumes "0 < (g::int)" and "0 \<le> E" and "h = E div g" and "1 \<le> h"
  shows "g \<le> E div h"
proof -
  have "g * (E div g) \<le> E"
    using assms(1) mult_div_mod_eq[of g E] pos_mod_sign[of g E] by linarith
  then have "g * h \<le> E" using assms(3) by simp
  then have "(g * h) div h \<le> E div h" using assms(4) by (intro zdiv_mono1) simp_all
  then show ?thesis using assms(4) by simp
qed


lemma getEdgesForGrid_concat:
  assumes "e0 < e1" and "e2 < e3" and "0 < g0" and "0 < g1"
    and "1 \<le> (e1 - e0) div g0" and "1 \<le> (e3 - e2) div g1"
  shows "getEdgesForGrid (e0, e1, e2, e3) (g0, g1) =
     Inr (concat (map (\<lambda>i. map (\<lambda>j.
              (e0 + (e1 - e0) div g0 * i, e0 + (e1 - e0) div g0 * i + (e1 - e0) div g0,
               e2 + (e3 - e2) div g1 * j, e2 + (e3 - e2) div g1 * j + (e3 - e2) div g1))
            [0..(e3 - e2) div ((e3 - e2) div g1) - 1])
          [0..(e1 - e0) div ((e1 - e0) div g0) - 1]))"
  using assms
  by (simp add: getEdgesForGrid_def py_int_truediv_nonneg new_starts_def py_range_def comp_def)

lemma pixels_cells_union:
  assumes "1 \<le> h" and "1 \<le> w"
  shows "\<Union> (pixels ` set (map (\<lambda>(r, c). (r, r + h, c, c + w))
            (List.product (new_starts s h n) (new_starts t w m)))) =
         pixels (s, s + h * n, t, t + w * m)"
proof -
  have "(x, y) \<in> \<Union> (pixels ` set (map (\<lambda>(r, c). (r, r + h, c, c + w))
            (List.product (new_starts s h n) (new_starts t w m)))) \<longleftrightarrow>
        (x, y) \<in> pixels (s, s + h * n, t, t + w * m)" for x y
  proof -
    have "(x, y) \<in> \<Union> (pixels ` set (map (\<lambda>(r, c). (r, r + h, c, c + w))
            (List.product (new_starts s h n) (new_starts t w m)))) \<longleftrightarrow>
          (\<exists>r\<in>set (new_starts s h n). r \<le> x \<and> x < r + h)
          \<and> (\<exists>c\<in>set (new_starts t w m). c \<le> y \<and> y < c + w)"
      by (auto simp: pixels_def)
    also have "\<dots> \<longleftrightarrow> (s \<le> x \<and> x < s + h * n \<and> 0 < n) \<and> (t \<le> y \<and> y < t + w * m \<and> 0 < m)"
      by (simp only: new_starts_cover[OF assms(1)] new_starts_cover[OF assms(2)])
    also have "\<dots> \<longleftrightarrow> (x, y) \<in> pixels (s, s + h * n, t, t + w * m)"
    proof -
      have "0 < n" if "s \<le> x" "x < s + h * n"
      proof (rule ccontr)
        assume "\<not> 0 < n"
        then have "h * n \<le> h * 0" using assms(1) by (intro mult_left_mono) simp_all
        with that show False by simp
      qed
      moreover have "0 < m" if "t \<le> y" "y < t + w * m"
      proof (rule ccontr)
        assume "\<not> 0 < m"
        then have "w * m \<le> w * 0" using assms(2) by (intro mult_left_mono) simp_all
        with that show False by simp
      qed
      ultimately show ?thesis by (auto simp: pixels_def)
    qed
    finally show ?thesis .
  qed
  then show ?thesis by (intro set_eqI) (simp only: split_paired_all)
qed

text \<open>
  Claim C3, as the code has it. For a rectangle with positive extents, a positive grid size
  and cell height \<open>(e1 - e0) div g0\<close> and width \<open>(e3 - e2) div g1\<close> (floor division) of at
  least 1, the cells start at \<open>start + cell_size * i\<close> for \<open>i\<close> from 0 to
  \<open>extent div cell_size - 1\<close> along each axis, in row-major order. The number of cells along
  an axis is never below the nominal grid size (it is above it on the columns of the
  example of claim C4), the cells end at or before the end of the rectangle, and together
  they cover exactly the pixels before \<open>start + cell_size * (extent div cell_size)\<close>: the
  remainder at the high end belongs to no cell.
\<close>

theorem getEdgesForGrid_starts_and_remainder:
  assumes "e0 < e1" and "e2 < e3" and "0 < g0" and "0 < g1"
    and "height = (e1 - e0) div g0" and "1 \<le> height"
    and "width = (e3 - e2) div g1" and "1 \<le> width"
    and "n_rows = (e1 - e0) div height" and "n_cols = (e3 - e2) div width"
  shows "\<exists>cells. getEdgesForGrid (e0, e1, e2, e3) (g0, g1) = Inr cells
           \<and> cells = concat (map (\<lambda>i. map (\<lambda>j.
                        (e0 + height * i, e0 + height * i + height,
                         e2 + width * j, e2 + width * j + width))
                      [0..n_cols - 1]) [0..n_rows - 1])
           \<and> g0 \<le> n_rows \<and> g1 \<le> n_cols
           \<and> e0 + height * n_rows \<le> e1 \<and> e2 + width * n_cols \<le> e3
           \<and> \<Union> (pixels ` set cells) =
               pixels (e0, e0 + height * n_rows, e2, e2 + width * n_cols)"
proof -
  define cells where "cells = concat (map (\<lambda>i. map (\<lambda>j.
                        (e0 + height * i, e0 + height * i + height,
                         e2 + width * j, e2 + width * j + width))
                      [0..n_cols - 1]) [0..n_rows - 1])"
  have eq: "getEdgesForGrid (e0, e1, e2, e3) (g0, g1) = Inr cells"
    using getEdgesForGrid_concat[OF assms(1-4)] assms(5-10) by (simp add: cells_def)
  have hz: "(e1 - e0) div g0 \<noteq> 0" "(e3 - e2) div g1 \<noteq> 0" using assms(5-8) by simp_all
  have "Inr cells = Inr (map (\<lambda>(r, c). (r, r + height, c, c + width))
            (List.product (new_starts e0 height n_rows) (new_starts e2 width n_cols)))"
    using getEdgesForGrid_product[OF assms(1-4) hz] eq assms(5,7,9,10) by simp
  then have "\<Union> (pixels ` set cells) =
      \<Union> (pixels ` set (map (\<lambda>(r, c). (r, r + height, c, c + width))
            (List.product (new_starts e0 height n_rows) (new_starts e2 width n_cols))))"
    by simp
  also have "\<dots> = pixels (e0, e0 + height * n_rows, e2, e2 + width * n_cols)"
    by (rule pixels_cells_union[OF assms(6,8)])
  finally have un: "\<Union> (pixels ` set cells) =
      pixels (e0, e0 + height * n_rows, e2, e2 + width * n_cols)" .
  have g: "g0 \<le> n_rows" "g1 \<le> n_cols"
    using nominal_le_count[OF assms(3) _ assms(5,6)] nominal_le_count[OF assms(4) _ assms(7,8)]
      assms(1,2,9,10) by simp_all
  have "height * ((e1 - e0) div height) \<le> e1 - e0"
    using assms(6) mult_div_mod_eq[of height "e1 - e0"] pos_mod_sign[of height "e1 - e0"]
    by linarith
  moreover have "width * ((e3 - e2) div width) \<le> e3 - e2"
    using assms(8) mult_div_mod_eq[of width "e3 - e2"] pos_mod_sign[of width "e3 - e2"]
    by linarith
  ultimately have b: "e0 + height * n_rows \<le> e1" "e2 + width * n_cols \<le> e3"
    using assms(9,10) by simp_all
  from eq g b un show ?thesis unfolding cells_def by blast
qed

theorem getEdgesForGrid_starts_and_remainder_witness:
  "(10::int) < 15 \<and> (5::int) < 8 \<and> (2::int) = (15 - 10) div 2 \<and> (1::int) = (8 - 5) div 2
   \<and> (2::int) = (15 - 10) div 2 \<and> (3::int) = (8 - 5) div 1
   \<and> (\<exists>cells. getEdgesForGrid (10, 15, 5, 8) (2, 2) = Inr cells
           \<and> cells = concat (map (\<lambda>i. map (\<lambda>j.
                        (10 + 2 * i, 10 + 2 * i + 2, 5 + 1 * j, 5 + 1 * j + 1))
                      [0..3 - 1]) [0..2 - 1])
           \<and> (2::int) \<le> 2 \<and> (2::int) \<le> 3
           \<and> (10::int) + 2 * 2 \<le> 15 \<and> (5::int) + 1 * 3 \<le> 8
           \<and> \<Union> (pixels ` set cells) = pixels (10, 10 + 2 * 2, 5, 5 + 1 * 3))"
proof -
  have a: "(10::int) < 15" "(5::int) < 8" "(0::int) < 2" "(0::int) < 2" by simp_all
  have h: "(2::int) = (15 - 10) div 2" "(1::int) \<le> 2" by simp_all
  have w: "(1::int) = (8 - 5) div 2" "(1::int) \<le> 1" by simp_all
  have n: "(2::int) = (15 - 10) div 2" "(3::int) = (8 - 5) div 1" by simp_all
  from getEdgesForGrid_starts_and_remainder [OF a h w n] a h(1) w(1) n
  show ?thesis by blast
qed

text \<open>
  The sentence of claim C3 that an extent which the grid size does not divide gives fewer
  cells than the nominal count fails on the rectangle \<open>[10, 15, 5, 8]\<close> with grid \<open>(2, 2)\<close>:
  neither extent is divisible by 2, yet there are 2 row starts, 3 column starts and 6
  cells, not fewer than \<open>2 * 2\<close>.
\<close>

theorem getEdgesForGrid_fewer_cells_counterexample:
  "(15 - 10) mod 2 \<noteq> (0::int) \<and> (8 - 5) mod 2 \<noteq> (0::int)
   \<and> getEdgesForGrid (10, 15, 5, 8) (2, 2) =
       Inr [(10, 12, 5, 6), (10, 12, 6, 7), (10, 12, 7, 8),
            (12, 14, 5, 6), (12, 14, 6, 7), (12, 14, 7, 8)]
   \<and> \<not> length (new_starts 10 2 2) < 2
   \<and> \<not> length (new_starts 5 1 3) < 2
   \<and> \<not> length (projr (getEdgesForGrid (10, 15, 5, 8) (2, 2))) < 2 * 2"
  by (simp add: getEdgesForGrid_def py_int_truediv_def new_starts_def py_range_def upto_rec1)

subsection \<open>Pixels collected for a region\<close>

lemma fold_roi_step_cols:
  "fold (\<lambda>col roi. roi_step img msk i row col roi) cols roi =
     roi @ map (\<lambda>p. img (fst p) (snd p) i)
             (filter (\<lambda>p. \<not> isExcluded msk p) (map (Pair row) cols))"
  by (induction cols arbitrary: roi)
     (auto simp: roi_step_def isExcluded_def split: option.splits)

lemma fold_roi_step_rows:
  "fold (\<lambda>row roi. fold (\<lambda>col roi. roi_step img msk i row col roi) cols roi) rs roi =
     roi @ map (\<lambda>p. img (fst p) (snd p) i)
             (filter (\<lambda>p. \<not> isExcluded msk p) (List.product rs cols))"
  by (induction rs arbitrary: roi) (simp_all add: fold_roi_step_cols)

lemma collect_roi_available:
  "collect_roi img msk edges i = map (\<lambda>p. img (fst p) (snd p) i) (available msk edges)"
  by (cases edges) (simp add: collect_roi_def available_def fold_roi_step_rows)

lemma set_available:
  "set (available msk edges) = {p \<in> pixels edges. \<not> isExcluded msk p}"
  by (cases edges) (auto simp: available_def pixels_def)

lemma distinct_available: "distinct (available msk edges)"
  by (cases edges) (simp add: available_def distinct_product)

text \<open>
  Claim C9. For every rectangle, band and optional mask, the values collected for the
  aggregation are the band's values at exactly the pixels of the rectangle whose mask
  value is not 1, each pixel once, in the order of the loops; without a mask no pixel is
  excluded, and with a mask a pixel is excluded iff its mask value equals 1.
\<close>

theorem collect_roi_exactly_unmasked:
  "collect_roi img msk edges i = map (\<lambda>p. img (fst p) (snd p) i) (available msk edges)
   \<and> distinct (available msk edges)
   \<and> set (available msk edges) = {p \<in> pixels edges. \<not> isExcluded msk p}
   \<and> isExcluded None p = False
   \<and> isExcluded (Some m) p = (m (fst p) (snd p) = 1)"
  by (simp add: collect_roi_available distinct_available set_available isExcluded_def)

subsection \<open>Calibration against the reference\<close>

lemma getCalibratedSpectrum_values:
  assumes "length soil = length spectralon"
  shows "\<exists>res. getCalibratedSpectrum soil spectralon f = Inr res
           \<and> band_values res = map2 (\<lambda>s r. np_mul (np_div s r) f) soil spectralon"
proof (cases "\<exists>x. soil = [x]")
  case True
  then obtain x where x: "soil = [x]" by blast
  with assms obtain y where y: "spectralon = [y]"
    by (cases spectralon) auto
  show ?thesis by (simp add: x y getCalibratedSpectrum_def np_squeeze_def)
next
  case False
  then have s: "np_squeeze soil = Array soil"
    by (auto simp: np_squeeze_def split: list.splits)
  from False assms have "\<not> (\<exists>y. spectralon = [y])"
    by (metis length_Cons list.size(3) length_0_conv length_Suc_conv)
  then have r: "np_squeeze spectralon = Array spectralon"
    by (auto simp: np_squeeze_def split: list.splits)
  show ?thesis using assms
    by (simp add: getCalibratedSpectrum_def s r map_zip_map split_def comp_def)
qed

text \<open>
  Claim C5. For a soil spectrum and a reference spectrum of the same length and any
  reflectance factor, \<^verbatim>\<open>getCalibratedSpectrum\<close> returns, band by band, the soil value divided
  by the reference value and multiplied by the factor; for soil \<open>[10, 20]\<close>, reference
  \<open>[20, 20]\<close> and factor 0.95 the result is \<open>[0.475, 0.95]\<close>.
\<close>

theorem getCalibratedSpectrum_per_band:
  "(length soil = length spectralon \<longrightarrow>
      (\<exists>res. getCalibratedSpectrum soil spectralon spectralon_factor = Inr res
         \<and> band_values res =
             map2 (\<lambda>s r. np_mul (np_div s r) spectralon_factor) soil spectralon))
   \<and> getCalibratedSpectrum [Finite 10, Finite 20] [Finite 20, Finite 20] (Finite 0.95) =
       Inr (Array [Finite 0.475, Finite 0.95])"
  using getCalibratedSpectrum_values[of soil spectralon spectralon_factor]
  by (simp add: getCalibratedSpectrum_def np_squeeze_def)

theorem getCalibratedSpectrum_per_band_witness:
  "length [Finite 10, Finite 20] = length [Finite 20, Finite 20]
   \<and> (\<exists>res. getCalibratedSpectrum [Finite 10, Finite 20] [Finite 20, Finite 20] (Finite 0.95) = Inr res
         \<and> band_values res = [Finite 0.475, Finite 0.95])
   \<and> (\<exists>res. getCalibratedSpectrum [Finite 3] [Finite 4] (Finite 1) = Inr res
         \<and> band_values res = [Finite 0.75])"
proof -
  have 1: "map2 (\<lambda>s r. np_mul (np_div s r) (Finite 0.95)) [Finite 10, Finite 20] [Finite 20, Finite 20]
           = [Finite 0.475, Finite 0.95]" by simp
  have 2: "map2 (\<lambda>s r. np_mul (np_div s r) (Finite 1)) [Finite 3] [Finite 4] = [Finite 0.75]" by simp
  from getCalibratedSpectrum_per_band[of "[Finite 10, Finite 20]" "[Finite 20, Finite 20]" "Finite 0.95"]
    getCalibratedSpectrum_per_band[of "[Finite 3]" "[Finite 4]" "Finite 1"] 1 2
  show ?thesis by simp
qed

subsection \<open>The mode \<open>max10\<close> on small regions\<close>

lemma sum_list_insort: "sum_list (insort x xs) = x + sum_list (xs :: real list)"
  by (induction xs) simp_all

lemma sum_list_sort: "sum_list (sort xs) = sum_list (xs :: real list)"
  by (induction xs) (simp_all add: sum_list_insort)

lemma last_ten_short: "length xs \<le> 10 \<Longrightarrow> last_ten xs = xs"
  by (simp add: last_ten_def)

lemma sort_eq_Nil: "sort xs = [] \<longleftrightarrow> xs = []"
  by (metis length_sort length_0_conv)

lemma np_mean_max10:
  "length roi \<le> 10 \<Longrightarrow> reduce_roi ''max10'' roi = Inr (Some (np_mean roi))"
  by (simp add: reduce_roi_def last_ten_short np_mean_def sum_list_sort sort_eq_Nil)

lemma spectrum_mean_loop_max10:
  assumes "length (available msk edges) \<le> 10"
  shows "spectrum_mean_loop img msk edges ''max10'' bands acc =
           Inr (acc @ map (\<lambda>i. np_mean (collect_roi img msk edges i)) bands)"
proof (induction bands arbitrary: acc)
  case Nil
  then show ?case by simp
next
  case (Cons i rest)
  have "length (collect_roi img msk edges i) \<le> 10"
    using assms by (simp add: collect_roi_available)
  then show ?case by (simp add: np_mean_max10 Cons.IH)
qed

text \<open>
  Claim C1, as the code has it. In mode \<open>max10\<close> over a region with at most ten available
  pixels, \<^verbatim>\<open>np.sort(roi)[-10:]\<close> keeps every value, so each band's value is \<^verbatim>\<open>np.mean\<close> of all
  available values: with exactly ten pixels the mean of all ten, with fewer (at least one)
  the mean of those, and no exception is raised for the number of pixels. The only
  exceptions left are those of \<^verbatim>\<open>removeBadBands\<close>.
\<close>

theorem getMeanSpectrumFromRectangle_max10_small_region:
  assumes "length (available (the_mask self) edges) \<le> 10"
  shows "getMeanSpectrumFromRectangle self edges ''max10'' =
           (case removeBadBands
                   (map (\<lambda>i. np_mean (collect_roi (the_image self) (the_mask self) edges i))
                        [0..<length (wavelengths_original self)])
                   (wavelengths_original self) (bbl_original self) of
              Inl e \<Rightarrow> Inl e
            | Inr (wls, spectrum) \<Rightarrow> DataFrame spectrum wls)
         \<and> (0 < length (available (the_mask self) edges) \<longrightarrow>
              np_mean (collect_roi (the_image self) (the_mask self) edges i) =
                Finite (sum_list (collect_roi (the_image self) (the_mask self) edges i)
                        / real (length (available (the_mask self) edges))))"
  using spectrum_mean_loop_max10[OF assms, of "the_image self" _ "[]"]
  by (simp add: getMeanSpectrumFromRectangle_def np_mean_def collect_roi_available)

lemma example_available10:
  "available None (0, 2, 0, 5) =
     [(0, 0), (0, 1), (0, 2), (0, 3), (0, 4), (1, 0), (1, 1), (1, 2), (1, 3), (1, 4)]"
  by (simp add: available_def isExcluded_def upto_rec1)

lemma example_roi10:
  "collect_roi example_image None (0, 2, 0, 5) i =
     [real i, 10 + real i, 20 + real i, 30 + real i, 40 + real i,
      real i, 10 + real i, 20 + real i, 30 + real i, 40 + real i]"
  by (simp add: collect_roi_available example_available10 example_image_def)

theorem getMeanSpectrumFromRectangle_max10_small_region_witness:
  "length (available (the_mask example_object) (0, 2, 0, 5)) = 10
   \<and> getMeanSpectrumFromRectangle example_object (0, 2, 0, 5) ''max10'' =
       Inr \<lparr>columns = [Wavelength 450, Wavelength 650],
            rows = [[Num (Finite 20), Num (Finite 22)]]\<rparr>
   \<and> np_mean (collect_roi (the_image example_object) (the_mask example_object) (0, 2, 0, 5) 0)
       = Finite 20"
proof -
  have n: "length (available (the_mask example_object) (0, 2, 0, 5)) = 10"
    by (simp add: example_object_def example_available10)
  then have h: "length (available (the_mask example_object) (0, 2, 0, 5)) \<le> 10" by simp
  from getMeanSpectrumFromRectangle_max10_small_region [OF h, of 0] n
  show ?thesis
    by (simp add: example_object_def example_available10
        upt_rec[of 0] upt_rec[of 1] upt_rec[of 2] upt_rec[of 3]
        example_roi10 np_mean_def removeBadBands_def DataFrame_def)
qed

lemma example_available3: "available None (0, 1, 0, 3) = [(0, 0), (0, 1), (0, 2)]"
  by (simp add: available_def isExcluded_def upto_rec1)

lemma example_roi3: "collect_roi example_image None (0, 1, 0, 3) i = [real i, 10 + real i, 20 + real i]"
  by (simp add: collect_roi_available example_available3 example_image_def)

text \<open>
  The sentence of claim C1 that fewer than ten available pixels make the operation fail
  does not hold: on the three pixels of the rectangle \<open>[0, 1, 0, 3]\<close> the mode \<open>max10\<close>
  returns the table of the means of the three values.
\<close>

theorem getMeanSpectrumFromRectangle_max10_counterexample:
  "length (available (the_mask example_object) (0, 1, 0, 3)) = 3
   \<and> getMeanSpectrumFromRectangle example_object (0, 1, 0, 3) ''max10'' =
       Inr \<lparr>columns = [Wavelength 450, Wavelength 650],
            rows = [[Num (Finite 10), Num (Finite 12)]]\<rparr>"
  by (simp add: example_object_def example_available3 getMeanSpectrumFromRectangle_def
      upt_rec[of 0] upt_rec[of 1] upt_rec[of 2] upt_rec[of 3]
      example_roi3 reduce_roi_def last_ten_def np_mean_def removeBadBands_def DataFrame_def)

subsection \<open>Shape of the table of zone spectra\<close>

text \<open>
  Every table that the pipeline returns is followed through its steps: a rectangle gives a
  table of one row whose columns are the usable wavelengths, a zone gives one row for each
  element of the grid and two more columns, the calibration keeps rows and columns, and the
  zones are appended.
\<close>

lemma reduce_roi_median: "reduce_roi ''median'' roi = Inr (Some (np_median roi))"
  by (simp add: reduce_roi_def)

lemma reduce_roi_max10: "reduce_roi ''max10'' roi = Inr (Some (np_mean (last_ten (sort roi))))"
  by (simp add: reduce_roi_def)

lemma spectrum_mean_loop_length:
  assumes "\<And>roi. \<exists>v. reduce_roi mode roi = Inr (Some v)"
  shows "\<exists>sm. spectrum_mean_loop img msk edges mode bs acc = Inr sm
           \<and> length sm = length acc + length bs"
proof (induction bs arbitrary: acc)
  case Nil
  then show ?case by simp
next
  case (Cons i rest)
  from assms obtain v where v: "reduce_roi mode (collect_roi img msk edges i) = Inr (Some v)"
    by blast
  from Cons[of "acc @ [v]"] show ?case by (simp add: v)
qed

lemma removeBadBands_loop_lengths:
  "removeBadBands_loop i s w b nw ns = Inr (x, y) \<Longrightarrow> length x + length ns = length y + length nw"
proof (induction s arbitrary: i nw ns)
  case Nil
  then show ?case by simp
next
  case (Cons r rest)
  then show ?case
    by (auto split: if_splits sum.splits dest!: Cons.IH)
qed

lemma removeBadBands_loop_same_wavelengths:
  "length s1 = length s2 \<Longrightarrow> removeBadBands_loop i s1 w b nw ns1 = Inr (x, y) \<Longrightarrow>
     \<exists>y'. removeBadBands_loop i s2 w b nw ns2 = Inr (x, y')"
proof (induction s1 s2 arbitrary: i nw ns1 ns2 rule: list_induct2)
  case Nil
  then show ?case by simp
next
  case (Cons r1 s1 r2 s2)
  from Cons.prems show ?case
    by (auto split: if_splits sum.splits intro: Cons.IH)
qed

lemma removeBadBands_same_wavelengths:
  assumes "length s1 = length s2" and "removeBadBands s1 w b = Inr (x, y)"
  shows "\<exists>y'. removeBadBands s2 w b = Inr (x, y') \<and> length y' = length x"
proof -
  from removeBadBands_loop_same_wavelengths[OF assms(1), of 0 w b "[]" "[]" x y "[]"] assms(2)
  obtain y' where y': "removeBadBands s2 w b = Inr (x, y')"
    by (auto simp: removeBadBands_def)
  then have "length x = length y'"
    using removeBadBands_loop_lengths[of 0 s2 w b "[]" "[]" x y'] by (simp add: removeBadBands_def)
  with y' show ?thesis by simp
qed

lemma collect_results_all2:
  "collect_results f xs = Inr ys \<Longrightarrow> list_all2 (\<lambda>x y. f x = Inr y) xs ys"
  by (induction xs arbitrary: ys) (auto split: sum.splits)

lemma pd_concat_Inr:
  assumes "pd_concat fs = Inr df"
  shows "fs \<noteq> [] \<and> columns df = columns (hd fs) \<and> rows df = concat (map rows fs)"
  using assms by (auto simp: pd_concat_def split: list.splits if_splits)

lemma set_column_Inr:
  assumes "set_column df name vals = Inr df'"
  shows "length vals = length (rows df) \<and> length (rows df') = length (rows df)
         \<and> columns df' = (if name \<in> set (columns df) then columns df else columns df @ [name])"
  using assms by (auto simp: set_column_def split: if_splits)

lemma getCalibratedSpectra_Inr:
  assumes "getCalibratedSpectra self spectra spectralon f = Inr df"
  shows "columns df = columns spectra \<and> length (rows df) = length (rows spectra)"
proof -
  from assms obtain reference new_rows where
    "collect_results (calibrate_row (columns spectra) (map Wavelength (wavelengths self)) reference f)
       (rows spectra) = Inr new_rows"
    and df: "df = \<lparr>columns = columns spectra, rows = new_rows\<rparr>"
    by (auto simp: getCalibratedSpectra_def Let_def split: if_splits list.splits sum.splits)
  from collect_results_all2[OF this(1)] have "length new_rows = length (rows spectra)"
    by (simp add: list_all2_lengthD)
  with df show ?thesis by simp
qed


lemma getMeanSpectrumFromRectangle_shape:
  assumes wf: "removeBadBands (wavelengths_original self) (wavelengths_original self)
                 (bbl_original self) = Inr (wavelengths self, k)"
    and mode: "mode = ''median'' \<or> mode = ''max10''"
  shows "\<exists>r. getMeanSpectrumFromRectangle self e mode =
               Inr \<lparr>columns = map Wavelength (wavelengths self), rows = [r]\<rparr>
             \<and> length r = length (wavelengths self)"
proof -
  from mode have "\<exists>v. reduce_roi mode roi = Inr (Some v)" for roi
    by (auto simp: reduce_roi_median reduce_roi_max10)
  from spectrum_mean_loop_length[of mode "the_image self" "the_mask self" e
         "[0..<length (wavelengths_original self)]" "[]", OF this]
  obtain sm where sm: "spectrum_mean_loop (the_image self) (the_mask self) e mode
         [0..<length (wavelengths_original self)] [] = Inr sm"
    and l: "length sm = length (wavelengths_original self)"
    by auto
  from removeBadBands_same_wavelengths[OF l[symmetric] wf]
  obtain y where y: "removeBadBands sm (wavelengths_original self) (bbl_original self) =
         Inr (wavelengths self, y)" and ly: "length y = length (wavelengths self)"
    by auto
  show ?thesis
    by (rule exI[of _ "map Num y"])
       (simp add: getMeanSpectrumFromRectangle_def sm y DataFrame_def ly)
qed

lemma length_py_range: "length (py_range n) = nat n"
  by (simp add: py_range_def)

lemma length_getGridElements:
  "fst g \<noteq> 0 \<Longrightarrow> length (getGridElements (Some g)) = nat (fst g) * nat (snd g)"
  by (cases g) (auto simp: getGridElements_def length_py_range)

lemma getEdgesForGrid_Inr_nonzero:
  "getEdgesForGrid e g = Inr cells \<Longrightarrow> fst g \<noteq> 0 \<and> snd g \<noteq> 0"
  by (cases e) (auto simp: getEdgesForGrid_def py_int_truediv_def split: sum.splits if_splits)

lemma nat_mult_pos_int:
  "1 \<le> nat a * nat b \<Longrightarrow> int (nat a * nat b) = a * b"
  by (cases "0 < a"; cases "0 < b") simp_all

lemma getMeanSpectraFromSquareGrid_Inr:
  assumes "getMeanSpectraFromSquareGrid self e mode = Inr df"
  obtains cells spectra_list df0 df1 where
    "getEdgesForGrid e (getRealGridSize (grid self) e) = Inr cells"
    and "collect_results (\<lambda>new_edges. getMeanSpectrumFromRectangle self new_edges mode)
               cells = Inr spectra_list"
    and "pd_concat spectra_list = Inr df0"
    and "set_column df0 (Name ''GridElement_Row'')
               (map (\<lambda>el. IntCell (fst el))
                  (getGridElements (Some (getRealGridSize (grid self) e)))) = Inr df1"
    and "set_column df1 (Name ''GridElement_Column'')
               (map (\<lambda>el. IntCell (snd el))
                  (getGridElements (Some (getRealGridSize (grid self) e)))) = Inr df"
proof -
  let ?g = "getRealGridSize (grid self) e"
  note d = getMeanSpectraFromSquareGrid_def Let_def
  from assms obtain cells where cells: "getEdgesForGrid e ?g = Inr cells"
    by (cases "getEdgesForGrid e ?g") (simp_all add: d)
  from assms obtain sl where sl:
    "collect_results (\<lambda>new_edges. getMeanSpectrumFromRectangle self new_edges mode) cells = Inr sl"
    by (cases "collect_results (\<lambda>new_edges. getMeanSpectrumFromRectangle self new_edges mode) cells")
       (simp_all add: d cells)
  from assms obtain df0 where df0: "pd_concat sl = Inr df0"
    by (cases "pd_concat sl") (simp_all add: d cells sl)
  from assms obtain df1 where df1: "set_column df0 (Name ''GridElement_Row'')
               (map (\<lambda>el. IntCell (fst el)) (getGridElements (Some ?g))) = Inr df1"
    by (cases "set_column df0 (Name ''GridElement_Row'')
               (map (\<lambda>el. IntCell (fst el)) (getGridElements (Some ?g)))")
       (simp_all add: d cells sl df0)
  from assms have "set_column df1 (Name ''GridElement_Column'')
               (map (\<lambda>el. IntCell (snd el)) (getGridElements (Some ?g))) = Inr df"
    by (simp add: d cells sl df0 df1)
  with cells sl df0 df1 show ?thesis by (rule that)
qed

lemma collect_results_set:
  "collect_results f xs = Inr ys \<Longrightarrow> y \<in> set ys \<Longrightarrow> \<exists>x. f x = Inr y"
proof (induction xs arbitrary: ys)
  case Nil
  then show ?case by simp
next
  case (Cons x xs)
  from Cons.prems(1) obtain y0 ys0 where y0: "f x = Inr y0"
    and ys0: "collect_results f xs = Inr ys0" and ys: "ys = y0 # ys0"
    by (auto split: sum.splits)
  show ?case
  proof (cases "y = y0")
    case True
    with y0 show ?thesis by blast
  next
    case False
    with Cons.prems(2) ys have "y \<in> set ys0" by simp
    with Cons.IH[OF ys0] show ?thesis .
  qed
qed

lemma concat_rows_single:
  "\<forall>f\<in>set fs. length (rows f) = 1 \<Longrightarrow> length (concat (map rows fs)) = length fs"
  by (induction fs) simp_all

lemma getMeanSpectraFromSquareGrid_shape:
  assumes wf: "removeBadBands (wavelengths_original self) (wavelengths_original self)
                 (bbl_original self) = Inr (wavelengths self, k)"
    and ret: "getMeanSpectraFromSquareGrid self e ''median'' = Inr df"
  shows "columns df = map Wavelength (wavelengths self)
                        @ [Name ''GridElement_Row'', Name ''GridElement_Column'']
         \<and> int (length (rows df)) =
             fst (getRealGridSize (grid self) e) * snd (getRealGridSize (grid self) e)"
proof -
  let ?g = "getRealGridSize (grid self) e"
  let ?ge = "getGridElements (Some ?g)"
  from ret obtain cells spectra_list df0 df1 where
    cells: "getEdgesForGrid e ?g = Inr cells"
    and coll: "collect_results (\<lambda>new_edges. getMeanSpectrumFromRectangle self new_edges ''median'')
                 cells = Inr spectra_list"
    and conc: "pd_concat spectra_list = Inr df0"
    and c1: "set_column df0 (Name ''GridElement_Row'') (map (\<lambda>el. IntCell (fst el)) ?ge) = Inr df1"
    and c2: "set_column df1 (Name ''GridElement_Column'') (map (\<lambda>el. IntCell (snd el)) ?ge) = Inr df"
    by (rule getMeanSpectraFromSquareGrid_Inr)
  have each: "columns f = map Wavelength (wavelengths self) \<and> length (rows f) = 1"
    if "f \<in> set spectra_list" for f
  proof -
    from collect_results_set[OF coll that]
    obtain c where c: "getMeanSpectrumFromRectangle self c ''median'' = Inr f" ..
    from getMeanSpectrumFromRectangle_shape[OF wf, of "''median''" c] obtain r where
      "getMeanSpectrumFromRectangle self c ''median'' =
         Inr \<lparr>columns = map Wavelength (wavelengths self), rows = [r]\<rparr>"
      by blast
    with c have "f = \<lparr>columns = map Wavelength (wavelengths self), rows = [r]\<rparr>"
      by simp
    then show ?thesis by simp
  qed
  from pd_concat_Inr[OF conc] have ne: "spectra_list \<noteq> []"
    and cols0: "columns df0 = columns (hd spectra_list)"
    and rows0: "rows df0 = concat (map rows spectra_list)"
    by blast+
  from ne have "hd spectra_list \<in> set spectra_list" by simp
  with each have cols0': "columns df0 = map Wavelength (wavelengths self)"
    by (simp add: cols0)
  have "length (concat (map rows spectra_list)) = length spectra_list"
    by (rule concat_rows_single) (simp add: each)
  with ne rows0 have pos: "1 \<le> length (rows df0)"
    by (cases spectra_list) simp_all
  have n1: "Name ''GridElement_Row'' \<notin> set (map Wavelength (wavelengths self))"
    by auto
  from set_column_Inr[OF c1] have l1: "length ?ge = length (rows df0)"
    and r1: "length (rows df1) = length (rows df0)"
    and cols1: "columns df1 = map Wavelength (wavelengths self) @ [Name ''GridElement_Row'']"
    using n1 by (simp_all add: cols0')
  have n2: "Name ''GridElement_Column'' \<notin>
              set (map Wavelength (wavelengths self) @ [Name ''GridElement_Row''])"
    by auto
  from set_column_Inr[OF c2] have r2: "length (rows df) = length (rows df1)"
    and cols2: "columns df = map Wavelength (wavelengths self)
                  @ [Name ''GridElement_Row'', Name ''GridElement_Column'']"
    using n2 by (simp_all add: cols1)
  from getEdgesForGrid_Inr_nonzero[OF cells] have "fst ?g \<noteq> 0" ..
  then have "length ?ge = nat (fst ?g) * nat (snd ?g)"
    by (rule length_getGridElements)
  with l1 pos r1 r2 have "int (length (rows df)) = fst ?g * snd ?g"
    using nat_mult_pos_int[of "fst ?g" "snd ?g"] by simp
  with cols2 show ?thesis by simp
qed


lemma init_bands_Inr:
  assumes "init_bands wls bbl = Inr b"
  shows "\<exists>k. removeBadBands (wavelengths_original b) (wavelengths_original b) (bbl_original b)
               = Inr (wavelengths b, k)"
proof -
  from assms obtain wo bo where v: "validateWavelengths wls bbl = Inr (wo, bo)"
    by (cases "validateWavelengths wls bbl") (auto simp: init_bands_def)
  from assms v obtain w k where r: "removeBadBands wo wo bo = Inr (w, k)"
    by (cases "removeBadBands wo wo bo") (auto simp: init_bands_def)
  from assms v r have "b = \<lparr>wavelengths_original = wo, bbl_original = bo, wavelengths = w\<rparr>"
    by (simp add: init_bands_def)
  with r show ?thesis by simp
qed

lemma init_ProcessEnviFile_Inr:
  assumes "init_ProcessEnviFile img wls bbl zones pos index msk g = Inr self"
  shows "(\<exists>k. removeBadBands (wavelengths_original self) (wavelengths_original self)
                (bbl_original self) = Inr (wavelengths self, k))
         \<and> zone_list self = zones \<and> grid self = g"
proof -
  from assms obtain b where b: "init_bands wls bbl = Inr b"
    by (cases "init_bands wls bbl") (auto simp: init_ProcessEnviFile_def)
  from assms b have s: "self = \<lparr>wavelengths_original = wavelengths_original b,
               bbl_original = bbl_original b, wavelengths = wavelengths b,
               the_image = img, the_mask = msk, zone_list = zones, positions = pos,
               index_of_meas = index, grid = g\<rparr>"
    by (simp add: init_ProcessEnviFile_def)
  from init_bands_Inr[OF b] show ?thesis by (simp add: s)
qed

lemma set_column_scalar_shape:
  "columns (set_column_scalar df name v) =
     (if name \<in> set (columns df) then columns df else columns df @ [name])
   \<and> length (rows (set_column_scalar df name v)) = length (rows df)"
  by (simp add: set_column_scalar_def)

lemma zone_spectra_shape:
  assumes wf: "removeBadBands (wavelengths_original self) (wavelengths_original self)
                 (bbl_original self) = Inr (wavelengths self, k)"
    and e: "getEdgesFromPrefix self zone = Inr e"
    and ret: "zone_spectra self df_spectralon zone = Inr df"
  shows "columns df = map Wavelength (wavelengths self)
                        @ [Name ''GridElement_Row'', Name ''GridElement_Column'', Name ''zone'']
         \<and> int (length (rows df)) =
             fst (getRealGridSize (grid self) e) * snd (getRealGridSize (grid self) e)"
proof -
  from ret obtain dz where dz: "getMeanSpectraFromSquareGrid self e ''median'' = Inr dz"
    by (cases "getMeanSpectraFromSquareGrid self e ''median''") (simp_all add: zone_spectra_def e)
  from ret have cal: "getCalibratedSpectra self (set_column_scalar dz (Name ''zone'') (StrCell zone))
            df_spectralon (Finite 0.95) = Inr df"
    by (simp add: zone_spectra_def e dz)
  note a = getMeanSpectraFromSquareGrid_shape[OF wf dz]
  have n: "Name ''zone'' \<notin> set (map Wavelength (wavelengths self)
                        @ [Name ''GridElement_Row'', Name ''GridElement_Column''])"
    by auto
  from getCalibratedSpectra_Inr[OF cal] have
    "columns df = columns (set_column_scalar dz (Name ''zone'') (StrCell zone))"
    and "length (rows df) = length (rows (set_column_scalar dz (Name ''zone'') (StrCell zone)))"
    by blast+
  then have "columns df = columns dz @ [Name ''zone'']" and "length (rows df) = length (rows dz)"
    using n a by (simp_all add: set_column_scalar_shape)
  with a show ?thesis by simp
qed

lemma int_length_concat_rows:
  "int (length (concat (map rows fs))) = (\<Sum>f\<leftarrow>fs. int (length (rows f)))"
  by (induction fs) simp_all

lemma zones_shape:
  assumes wf: "removeBadBands (wavelengths_original self) (wavelengths_original self)
                 (bbl_original self) = Inr (wavelengths self, k)"
  shows "collect_results (zone_spectra self df_spectralon) zones = Inr frames \<Longrightarrow>
         map (getEdgesFromPrefix self) zones = map Inr es \<Longrightarrow>
         (\<Sum>f\<leftarrow>frames. int (length (rows f))) =
           (\<Sum>e\<leftarrow>es. fst (getRealGridSize (grid self) e) * snd (getRealGridSize (grid self) e))
         \<and> (\<forall>f\<in>set frames. columns f = map Wavelength (wavelengths self)
                 @ [Name ''GridElement_Row'', Name ''GridElement_Column'', Name ''zone''])"
proof (induction zones arbitrary: frames es)
  case Nil
  then show ?case by simp
next
  case (Cons z zs)
  from Cons.prems(1) obtain f fs where f: "zone_spectra self df_spectralon z = Inr f"
    and fs: "collect_results (zone_spectra self df_spectralon) zs = Inr fs"
    and frames: "frames = f # fs"
    by (auto split: sum.splits)
  from Cons.prems(2) obtain e es' where e: "getEdgesFromPrefix self z = Inr e"
    and es': "map (getEdgesFromPrefix self) zs = map Inr es'" and es: "es = e # es'"
    by (cases es) auto
  note h = zone_spectra_shape[OF wf e f]
  note ih = Cons.IH[OF fs es']
  from h ih show ?case by (simp add: frames es)
qed

lemma getMultipleSpectra_Inr:
  assumes "getMultipleSpectra self = Inr df"
  obtains spec_edges df_spectralon frames where
    "getEdgesFromPrefix self ''spec'' = Inr spec_edges"
    and "getMeanSpectrumFromRectangle self spec_edges ''max10'' = Inr df_spectralon"
    and "collect_results (zone_spectra self df_spectralon) (zone_list self) = Inr frames"
    and "pd_concat frames = Inr df"
proof -
  note d = getMultipleSpectra_def
  from assms obtain se where se: "getEdgesFromPrefix self ''spec'' = Inr se"
    by (cases "getEdgesFromPrefix self ''spec''") (simp_all add: d)
  from assms obtain ds where ds: "getMeanSpectrumFromRectangle self se ''max10'' = Inr ds"
    by (cases "getMeanSpectrumFromRectangle self se ''max10''") (simp_all add: d se)
  from assms obtain fr where fr: "collect_results (zone_spectra self ds) (zone_list self) = Inr fr"
    by (cases "collect_results (zone_spectra self ds) (zone_list self)") (simp_all add: d se ds)
  from assms have "pd_concat fr = Inr df"
    by (simp add: d se ds fr)
  with se ds fr show ?thesis by (rule that)
qed

text \<open>
  Claim C2. Let the object be built by the constructor, let \<open>es\<close> be the rectangles of its
  zones, and let \<^verbatim>\<open>getMultipleSpectra\<close> return a table. Then the number of rows of the table
  is the sum, over the zones, of the product of the two components of
  \<^verbatim>\<open>getRealGridSize\<close> on the zone's rectangle, and the columns are the usable wavelengths
  \<^verbatim>\<open>self.wavelengths\<close> followed by \<open>GridElement_Row\<close>, \<open>GridElement_Column\<close> and \<open>zone\<close>: three
  more columns than usable bands. A call that raises returns no table; this is the case
  when a zone's rectangle is divided into more cells than the grid has elements, the
  assignment of the column \<open>GridElement_Row\<close> then raising \<^verbatim>\<open>ValueError\<close>.
\<close>

theorem getMultipleSpectra_table_shape:
  assumes init: "init_ProcessEnviFile img wls bbl zones pos index msk g = Inr self"
    and resolvable: "map (getEdgesFromPrefix self) zones = map Inr es"
    and returned: "getMultipleSpectra self = Inr df"
  shows "int (length (rows df)) =
           (\<Sum>e\<leftarrow>es. fst (getRealGridSize g e) * snd (getRealGridSize g e))
         \<and> columns df = map Wavelength (wavelengths self)
              @ [Name ''GridElement_Row'', Name ''GridElement_Column'', Name ''zone'']
         \<and> length (columns df) = length (wavelengths self) + 3"
proof -
  from init_ProcessEnviFile_Inr[OF init] obtain k where
    wf: "removeBadBands (wavelengths_original self) (wavelengths_original self)
           (bbl_original self) = Inr (wavelengths self, k)"
    and z: "zone_list self = zones" and g: "grid self = g"
    by blast
  from returned obtain spec_edges df_spectralon frames where
    coll: "collect_results (zone_spectra self df_spectralon) (zone_list self) = Inr frames"
    and conc: "pd_concat frames = Inr df"
    by (rule getMultipleSpectra_Inr)
  note s = zones_shape[OF wf coll[unfolded z] resolvable, unfolded g]
  from pd_concat_Inr[OF conc] have ne: "frames \<noteq> []"
    and cols: "columns df = columns (hd frames)"
    and rws: "rows df = concat (map rows frames)"
    by blast+
  from ne have "hd frames \<in> set frames" by simp
  with s cols have c: "columns df = map Wavelength (wavelengths self)
              @ [Name ''GridElement_Row'', Name ''GridElement_Column'', Name ''zone'']"
    by simp
  have r: "int (length (rows df)) =
           (\<Sum>e\<leftarrow>es. fst (getRealGridSize g e) * snd (getRealGridSize g e))"
    using s by (simp add: rws int_length_concat_rows)
  from c r show ?thesis by simp
qed

text \<open>
  The capture \<open>example_capture\<close>: the grid \<open>(0, 1)\<close> makes one cell of every pixel row, so
  the zone of two rows gives two rows of the table and the zone of three rows gives three.
\<close>

lemma example_capture_fields:
  "grid example_capture = Some (0, 1)"
  "zone_list example_capture = [''zone1'', ''zone2'']"
  "wavelengths example_capture = [450, 650]"
  by (simp_all add: example_capture_def)

lemma example_capture_init:
  "init_ProcessEnviFile example_image [450, 550, 650] [FlagInt 1, FlagInt 0, FlagInt 1]
     [''zone1'', ''zone2''] example_zones 0 None (Some (0, 1)) = Inr example_capture"
  by (simp add: init_ProcessEnviFile_def init_bands_def validateWavelengths_def
      removeBadBands_def example_capture_def)

lemma example_capture_edges:
  "getEdgesFromPrefix example_capture ''spec'' = Inr (0, 1, 0, 3)"
  "getEdgesFromPrefix example_capture ''zone1'' = Inr (2, 4, 1, 3)"
  "getEdgesFromPrefix example_capture ''zone2'' = Inr (0, 3, 0, 1)"
  by (simp_all add: getEdgesFromPrefix_def position_at_def py_getitem_def
      example_capture_def example_zones_def)

lemma example_capture_median:
  "getMeanSpectrumFromRectangle example_capture e ''median'' =
     Inr \<lparr>columns = [Wavelength 450, Wavelength 650],
          rows = [[Num (np_median (collect_roi example_image None e 0)),
                   Num (np_median (collect_roi example_image None e 2))]]\<rparr>"
  by (simp add: getMeanSpectrumFromRectangle_def example_capture_def
      upt_rec[of 0] upt_rec[of 1] upt_rec[of 2] upt_rec[of 3]
      reduce_roi_def removeBadBands_def DataFrame_def numeral_2_eq_2)

lemma example_capture_reference:
  "getMeanSpectrumFromRectangle example_capture (0, 1, 0, 3) ''max10'' =
     Inr \<lparr>columns = [Wavelength 450, Wavelength 650],
          rows = [[Num (Finite 10), Num (Finite 12)]]\<rparr>"
  by (simp add: example_capture_def getMeanSpectrumFromRectangle_def
      upt_rec[of 0] upt_rec[of 1] upt_rec[of 2] upt_rec[of 3]
      example_roi3 reduce_roi_def last_ten_def np_mean_def removeBadBands_def DataFrame_def)

lemma example_roi_zone1:
  "collect_roi example_image None (2, 3, 1, 3) i = [10 + real i, 20 + real i]"
  "collect_roi example_image None (3, 4, 1, 3) i = [10 + real i, 20 + real i]"
  by (simp_all add: collect_roi_def roi_step_def example_image_def upto_rec1)

lemma example_roi_zone2:
  "collect_roi example_image None (0, 1, 0, 1) i = [real i]"
  "collect_roi example_image None (1, 2, 0, 1) i = [real i]"
  "collect_roi example_image None (2, 3, 0, 1) i = [real i]"
  by (simp_all add: collect_roi_def roi_step_def example_image_def upto_rec1)

lemma np_median_pair:
  "a \<le> b \<Longrightarrow> np_median [a, b] = Finite ((a + b) / 2)"
  by (simp add: np_median_def Let_def)

lemma np_median_single: "np_median [x] = Finite x"
  by (simp add: np_median_def Let_def)


lemma example_cells:
  "getEdgesForGrid (2, 4, 1, 3) (2, 1) = Inr [(2, 3, 1, 3), (3, 4, 1, 3)]"
  "getEdgesForGrid (0, 3, 0, 1) (3, 1) = Inr [(0, 1, 0, 1), (1, 2, 0, 1), (2, 3, 0, 1)]"
  by (simp_all add: getEdgesForGrid_def py_int_truediv_def new_starts_def py_range_def upto_rec1)

lemma example_grid_elements:
  "getGridElements (Some (2, 1)) = [(0, 0), (1, 0)]"
  "getGridElements (Some (3, 1)) = [(0, 0), (1, 0), (2, 0)]"
  by (simp_all add: getGridElements_def py_range_def upto_rec1)

lemma example_grid_zone1:
  "getMeanSpectraFromSquareGrid example_capture (2, 4, 1, 3) ''median'' =
     Inr \<lparr>columns = [Wavelength 450, Wavelength 650,
                     Name ''GridElement_Row'', Name ''GridElement_Column''],
          rows = [[Num (Finite 15), Num (Finite 17), IntCell 0, IntCell 0],
                  [Num (Finite 15), Num (Finite 17), IntCell 1, IntCell 0]]\<rparr>"
  by (simp add: getMeanSpectraFromSquareGrid_def getRealGridSize_def example_capture_fields
      example_cells example_grid_elements example_capture_median example_roi_zone1
      np_median_pair pd_concat_def set_column_def put_cell_def)

lemma example_grid_zone2:
  "getMeanSpectraFromSquareGrid example_capture (0, 3, 0, 1) ''median'' =
     Inr \<lparr>columns = [Wavelength 450, Wavelength 650,
                     Name ''GridElement_Row'', Name ''GridElement_Column''],
          rows = [[Num (Finite 0), Num (Finite 2), IntCell 0, IntCell 0],
                  [Num (Finite 0), Num (Finite 2), IntCell 1, IntCell 0],
                  [Num (Finite 0), Num (Finite 2), IntCell 2, IntCell 0]]\<rparr>"
  by (simp add: getMeanSpectraFromSquareGrid_def getRealGridSize_def example_capture_fields
      example_cells example_grid_elements example_capture_median example_roi_zone2
      np_median_single pd_concat_def set_column_def put_cell_def)


lemma example_zone1:
  "zone_spectra example_capture
     \<lparr>columns = [Wavelength 450, Wavelength 650], rows = [[Num (Finite 10), Num (Finite 12)]]\<rparr>
     ''zone1'' =
     Inr \<lparr>columns = [Wavelength 450, Wavelength 650,
                     Name ''GridElement_Row'', Name ''GridElement_Column'', Name ''zone''],
          rows = [[Num (Finite (57 / 40)), Num (Finite (323 / 240)), IntCell 0, IntCell 0,
                   StrCell ''zone1''],
                  [Num (Finite (57 / 40)), Num (Finite (323 / 240)), IntCell 1, IntCell 0,
                   StrCell ''zone1'']]\<rparr>"
  by (simp add: zone_spectra_def example_capture_edges example_grid_zone1
      set_column_scalar_def put_cell_def getCalibratedSpectra_def example_capture_fields
      select_row_def cell_float_def calibrate_row_def getCalibratedSpectrum_def
      np_squeeze_def put_row_def Let_def)

lemma example_zone2:
  "zone_spectra example_capture
     \<lparr>columns = [Wavelength 450, Wavelength 650], rows = [[Num (Finite 10), Num (Finite 12)]]\<rparr>
     ''zone2'' =
     Inr \<lparr>columns = [Wavelength 450, Wavelength 650,
                     Name ''GridElement_Row'', Name ''GridElement_Column'', Name ''zone''],
          rows = [[Num (Finite 0), Num (Finite (19 / 120)), IntCell 0, IntCell 0,
                   StrCell ''zone2''],
                  [Num (Finite 0), Num (Finite (19 / 120)), IntCell 1, IntCell 0,
                   StrCell ''zone2''],
                  [Num (Finite 0), Num (Finite (19 / 120)), IntCell 2, IntCell 0,
                   StrCell ''zone2'']]\<rparr>"
  by (simp add: zone_spectra_def example_capture_edges example_grid_zone2
      set_column_scalar_def put_cell_def getCalibratedSpectra_def example_capture_fields
      select_row_def cell_float_def calibrate_row_def getCalibratedSpectrum_def
      np_squeeze_def put_row_def Let_def)

lemma example_capture_table:
  "getMultipleSpectra example_capture =
     Inr \<lparr>columns = [Wavelength 450, Wavelength 650,
                     Name ''GridElement_Row'', Name ''GridElement_Column'', Name ''zone''],
          rows = [[Num (Finite (57 / 40)), Num (Finite (323 / 240)), IntCell 0, IntCell 0,
                   StrCell ''zone1''],
                  [Num (Finite (57 / 40)), Num (Finite (323 / 240)), IntCell 1, IntCell 0,
                   StrCell ''zone1''],
                  [Num (Finite 0), Num (Finite (19 / 120)), IntCell 0, IntCell 0,
                   StrCell ''zone2''],
                  [Num (Finite 0), Num (Finite (19 / 120)), IntCell 1, IntCell 0,
                   StrCell ''zone2''],
                  [Num (Finite 0), Num (Finite (19 / 120)), IntCell 2, IntCell 0,
                   StrCell ''zone2'']]\<rparr>"
  by (simp add: getMultipleSpectra_def example_capture_edges example_capture_reference
      example_capture_fields example_zone1 example_zone2 pd_concat_def)


theorem getMultipleSpectra_table_shape_witness:
  "init_ProcessEnviFile example_image [450, 550, 650] [FlagInt 1, FlagInt 0, FlagInt 1]
     [''zone1'', ''zone2''] example_zones 0 None (Some (0, 1)) = Inr example_capture
   \<and> map (getEdgesFromPrefix example_capture) [''zone1'', ''zone2''] =
       map Inr [(2, 4, 1, 3), (0, 3, 0, 1)]
   \<and> getMultipleSpectra example_capture =
       Inr \<lparr>columns = [Wavelength 450, Wavelength 650,
                       Name ''GridElement_Row'', Name ''GridElement_Column'', Name ''zone''],
            rows = [[Num (Finite (57 / 40)), Num (Finite (323 / 240)), IntCell 0, IntCell 0,
                     StrCell ''zone1''],
                    [Num (Finite (57 / 40)), Num (Finite (323 / 240)), IntCell 1, IntCell 0,
                     StrCell ''zone1''],
                    [Num (Finite 0), Num (Finite (19 / 120)), IntCell 0, IntCell 0,
                     StrCell ''zone2''],
                    [Num (Finite 0), Num (Finite (19 / 120)), IntCell 1, IntCell 0,
                     StrCell ''zone2''],
                    [Num (Finite 0), Num (Finite (19 / 120)), IntCell 2, IntCell 0,
                     StrCell ''zone2'']]\<rparr>
   \<and> int (length (rows (projr (getMultipleSpectra example_capture)))) =
       (\<Sum>e\<leftarrow>[(2, 4, 1, 3), (0, 3, 0, 1)].
          fst (getRealGridSize (Some (0, 1)) e) * snd (getRealGridSize (Some (0, 1)) e))
   \<and> getRealGridSize (Some (0, 1)) (2, 4, 1, 3) = (2, 1)
   \<and> getRealGridSize (Some (0, 1)) (0, 3, 0, 1) = (3, 1)
   \<and> length (rows (projr (getMultipleSpectra example_capture))) = 5
   \<and> length (columns (projr (getMultipleSpectra example_capture))) =
       length (wavelengths example_capture) + 3
   \<and> length (wavelengths example_capture) = 2"
proof -
  have res: "map (getEdgesFromPrefix example_capture) [''zone1'', ''zone2''] =
       map Inr [(2, 4, 1, 3), (0, 3, 0, 1)]"
    by (simp add: example_capture_edges)
  note T = getMultipleSpectra_table_shape [OF example_capture_init res example_capture_table]
  have r: "int (length (rows (projr (getMultipleSpectra example_capture)))) =
       (\<Sum>e\<leftarrow>[(2, 4, 1, 3), (0, 3, 0, 1)].
          fst (getRealGridSize (Some (0, 1)) e) * snd (getRealGridSize (Some (0, 1)) e))"
    using T [THEN conjunct1] by (simp add: example_capture_table)
  have c: "length (columns (projr (getMultipleSpectra example_capture))) =
       length (wavelengths example_capture) + 3"
    using T [THEN conjunct2, THEN conjunct2] by (simp add: example_capture_table)
  have g1: "getRealGridSize (Some (0, 1)) (2, 4, 1, 3) = (2, 1)"
    and g2: "getRealGridSize (Some (0, 1)) (0, 3, 0, 1) = (3, 1)"
    by (simp_all add: getRealGridSize_def)
  have n: "length (rows (projr (getMultipleSpectra example_capture))) = 5"
    by (simp add: example_capture_table)
  have w: "length (wavelengths example_capture) = 2"
    by (simp add: example_capture_fields)
  note i = example_capture_init and t = example_capture_table
  show ?thesis by (intro conjI; fact)
qed

end
